theory Spec2Isabelle
  imports Complex_Main
begin

section \<open>JavaScript strings and numbers\<close>

text \<open>
  A JavaScript string is a sequence of UTF-16 code units; a code unit is modelled as an
  integer. String literals of the source are written \<open>js ''...''\<close>.
\<close>

type_synonym jsstring = "int list"

definition js :: "string \<Rightarrow> jsstring" where
  "js s = map of_char s"

text \<open>The characters removed by \<open>trim()\<close> and matched by \<open>\s\<close>: WhiteSpace and LineTerminator.\<close>

definition isWhiteSpace :: "int \<Rightarrow> bool" where
  "isWhiteSpace c \<longleftrightarrow>
     c \<in> set [9, 10, 11, 12, 13, 32, 160, 5760, 8232, 8233, 8239, 8287, 12288, 65279]
     \<or> (8192 \<le> c \<and> c \<le> 8202)"

definition trim :: "jsstring \<Rightarrow> jsstring" where
  "trim s = rev (dropWhile isWhiteSpace (rev (dropWhile isWhiteSpace s)))"

definition isDigit :: "int \<Rightarrow> bool" where
  "isDigit c \<longleftrightarrow> 48 \<le> c \<and> c \<le> 57"

text \<open>\<open>s.substring(a, b)\<close>: the arguments are swapped when \<open>a > b\<close> and clamped to the length.\<close>

definition substring :: "nat \<Rightarrow> nat \<Rightarrow> jsstring \<Rightarrow> jsstring" where
  "substring a b s = take (max a b - min a b) (drop (min a b) s)"

text \<open>\<open>s.replace(pat, rep)\<close> with a string pattern: only the first occurrence is replaced.\<close>

fun replaceFirst :: "jsstring \<Rightarrow> jsstring \<Rightarrow> jsstring \<Rightarrow> jsstring" where
  "replaceFirst pat rep [] = (if pat = [] then rep else [])"
| "replaceFirst pat rep (c # cs) =
     (if take (length pat) (c # cs) = pat then rep @ drop (length pat) (c # cs)
      else c # replaceFirst pat rep cs)"

text \<open>
  A JavaScript number that holds an integer, or NaN. The streak counters and catalog ids
  are such numbers; the rounding of integers beyond \<open>2^53\<close> is not modelled.
\<close>

datatype jsnum = NaN | Num int

text \<open>The decimal digits of a non-negative integer.\<close>

function digitsOf :: "int \<Rightarrow> jsstring" where
  "digitsOf n = (if n < 10 then [48 + n] else digitsOf (n div 10) @ [48 + n mod 10])"
  by pat_completeness auto
termination
  by (relation "measure nat") auto

declare digitsOf.simps [simp del]

definition intToString :: "int \<Rightarrow> jsstring" where
  "intToString i = (if i < 0 then 45 # digitsOf (- i) else digitsOf i)"

text \<open>\<open>n.toString()\<close> and \<open>String(n)\<close>.\<close>

fun numToString :: "jsnum \<Rightarrow> jsstring" where
  "numToString NaN = js ''NaN''"
| "numToString (Num i) = intToString i"

text \<open>
  \<open>parseInt(s, 10)\<close>: leading white space is skipped, a sign is read, then the longest
  run of decimal digits; NaN when there is no digit.
\<close>

definition parseInt :: "jsstring \<Rightarrow> jsnum" where
  "parseInt s =
     (let t = dropWhile isWhiteSpace s;
          neg = (t \<noteq> [] \<and> hd t = 45);
          u = (if t \<noteq> [] \<and> (hd t = 45 \<or> hd t = 43) then tl t else t);
          ds = takeWhile isDigit u;
          v = foldl (\<lambda>a c. 10 * a + (c - 48)) 0 ds
      in if ds = [] then NaN else Num (if neg then - v else v))"

text \<open>\<open>s.padStart(2, '0')\<close>.\<close>

definition padStart2 :: "jsstring \<Rightarrow> jsstring" where
  "padStart2 s = replicate (2 - length s) 48 @ s"

text \<open>An entry of the seen-recently list (\<open>interface SeenMovie\<close>).\<close>

record SeenMovie =
  movieId :: int
  expiry :: int

text \<open>
  The Unicode tables and the JSON codec of the JavaScript runtime are not part of the
  repository: \<open>String.prototype.toLowerCase\<close>, \<open>String.prototype.normalize("NFD")\<close>,
  \<open>JSON.stringify\<close> and \<open>JSON.parse\<close> (on the seen-recently list; \<open>None\<close> when the text
  does not parse to such a list) are parameters of the model.
\<close>

record runtime =
  toLowerCase :: "jsstring \<Rightarrow> jsstring"
  normalizeNFD :: "jsstring \<Rightarrow> jsstring"
  jsonStringify :: "SeenMovie list \<Rightarrow> jsstring"
  jsonParse :: "jsstring \<Rightarrow> SeenMovie list option"

definition asciiLower :: "int \<Rightarrow> int" where
  "asciiLower c = (if 65 \<le> c \<and> c \<le> 90 then c + 32 else c)"

text \<open>
  What every ECMAScript runtime does on Basic Latin: upper-case letters are mapped to
  lower case, nothing else changes, and NFD leaves the string as it is.
\<close>

definition asciiConforming :: "runtime \<Rightarrow> bool" where
  "asciiConforming U \<longleftrightarrow>
     (\<forall>s. (\<forall>c \<in> set s. c < 128) \<longrightarrow>
        toLowerCase U s = map asciiLower s \<and> normalizeNFD U s = s)"

text \<open>
  A concrete runtime, used to evaluate the model: the Unicode tables restricted to Basic
  Latin and the Latin-1 Supplement (identity on every other code unit), and the JSON
  codec restricted to the texts \<open>JSON.stringify\<close> writes for a seen-recently list.
\<close>

definition lowerLatin1 :: "int \<Rightarrow> int" where
  "lowerLatin1 c =
     (if (65 \<le> c \<and> c \<le> 90) \<or> (192 \<le> c \<and> c \<le> 222 \<and> c \<noteq> 215) then c + 32 else c)"

definition upperDecompositions :: "(int \<times> int \<times> int) list" where
  "upperDecompositions =
     [(192, 65, 768), (193, 65, 769), (194, 65, 770), (195, 65, 771), (196, 65, 776),
      (197, 65, 778), (199, 67, 807), (200, 69, 768), (201, 69, 769), (202, 69, 770),
      (203, 69, 776), (204, 73, 768), (205, 73, 769), (206, 73, 770), (207, 73, 776),
      (209, 78, 771), (210, 79, 768), (211, 79, 769), (212, 79, 770), (213, 79, 771),
      (214, 79, 776), (217, 85, 768), (218, 85, 769), (219, 85, 770), (220, 85, 776),
      (221, 89, 769)]"

definition decomposeLatin1 :: "int \<Rightarrow> int list" where
  "decomposeLatin1 c =
     (if c = 255 then [121, 776]
      else case map_of upperDecompositions (if 224 \<le> c \<and> c < 255 then c - 32 else c) of
             None \<Rightarrow> [c]
           | Some (b, m) \<Rightarrow> if 224 \<le> c then [b + 32, m] else [b, m])"

text \<open>The texts \<open>{"movieId":\<close> and \<open>,"expiry":\<close> (code unit 34 is the double quote).\<close>

definition seenField1 :: jsstring where
  "seenField1 = js ''{'' @ [34] @ js ''movieId'' @ [34] @ js '':''"

definition seenField2 :: jsstring where
  "seenField2 = js '','' @ [34] @ js ''expiry'' @ [34] @ js '':''"

fun stringifySeen :: "SeenMovie list \<Rightarrow> jsstring" where
  "stringifySeen [] = []"
| "stringifySeen (x # xs) =
     seenField1 @ intToString (movieId x) @ seenField2 @ intToString (expiry x)
       @ js ''}'' @ (if xs = [] then [] else 44 # stringifySeen xs)"

definition readInt :: "jsstring \<Rightarrow> (int \<times> jsstring) option" where
  "readInt s =
     (let neg = (s \<noteq> [] \<and> hd s = 45);
          u = (if neg then tl s else s);
          ds = takeWhile isDigit u;
          v = foldl (\<lambda>a c. 10 * a + (c - 48)) 0 ds
      in if ds = [] then None else Some (if neg then - v else v, dropWhile isDigit u))"

definition expect :: "jsstring \<Rightarrow> jsstring \<Rightarrow> jsstring option" where
  "expect p s = (if take (length p) s = p then Some (drop (length p) s) else None)"

fun parseSeen :: "nat \<Rightarrow> jsstring \<Rightarrow> SeenMovie list option" where
  "parseSeen 0 s = None"
| "parseSeen (Suc n) s =
     (case expect seenField1 s of
        None \<Rightarrow> None
      | Some s1 \<Rightarrow>
          (case readInt s1 of
             None \<Rightarrow> None
           | Some (i, s2) \<Rightarrow>
               (case expect seenField2 s2 of
                  None \<Rightarrow> None
                | Some s3 \<Rightarrow>
                    (case readInt s3 of
                       None \<Rightarrow> None
                     | Some (e, s4) \<Rightarrow>
                         (case expect (js ''}'') s4 of
                            None \<Rightarrow> None
                          | Some s5 \<Rightarrow>
                              if s5 = [] then Some [\<lparr> movieId = i, expiry = e \<rparr>]
                              else (case expect [44] s5 of
                                      None \<Rightarrow> None
                                    | Some s6 \<Rightarrow>
                                        map_option (\<lambda>r. \<lparr> movieId = i, expiry = e \<rparr> # r)
                                          (parseSeen n s6)))))))"

definition latin1Runtime :: runtime where
  "latin1Runtime =
     \<lparr> toLowerCase = map lowerLatin1,
       normalizeNFD = (\<lambda>s. concat (map decomposeLatin1 s)),
       jsonStringify = (\<lambda>xs. 91 # stringifySeen xs @ [93]),
       jsonParse = (\<lambda>s. if s = js ''[]'' then Some []
                         else if s \<noteq> [] \<and> hd s = 91 \<and> last s = 93
                         then parseSeen (length s) (butlast (tl s)) else None) \<rparr>"

section \<open>Title normalizer\<close>

definition articles :: "jsstring list" where
  "articles = map js [''the'', ''a'', ''an'', ''le'', ''la'', ''les'', ''un'', ''une'', ''des'',
                      ''el'', ''los'', ''las'', ''il'', ''lo'', ''gli'', ''i'']"

text \<open>
  The match of \<open>/^(the|a|...|i)\s+/\<close>: the alternatives are tried in order, each has to be
  followed by at least one white space character, and \<open>\s+\<close> takes all of them. The result
  is what is left after the match, when there is one.
\<close>

fun matchArticle :: "jsstring list \<Rightarrow> jsstring \<Rightarrow> jsstring option" where
  "matchArticle [] s = None"
| "matchArticle (a # as) s =
     (let rest = drop (length a) s
      in if take (length a) s = a \<and> rest \<noteq> [] \<and> isWhiteSpace (hd rest)
         then Some (dropWhile isWhiteSpace rest)
         else matchArticle as s)"

definition stripLeadingArticles :: "runtime \<Rightarrow> jsstring \<Rightarrow> jsstring" where
  "stripLeadingArticles U str =
     (let trimmed = toLowerCase U (trim str);
          withoutElision =
            (case trimmed of
               l # q # rest \<Rightarrow> if l = 108 \<and> (q = 39 \<or> q = 96) then rest else trimmed
             | _ \<Rightarrow> trimmed)
      in trim (case matchArticle articles withoutElision of
                 None \<Rightarrow> withoutElision
               | Some rest \<Rightarrow> rest))"

definition isCombiningMark :: "int \<Rightarrow> bool" where
  "isCombiningMark c \<longleftrightarrow> 768 \<le> c \<and> c \<le> 879"

definition isLowerAlnum :: "int \<Rightarrow> bool" where
  "isLowerAlnum c \<longleftrightarrow> (97 \<le> c \<and> c \<le> 122) \<or> (48 \<le> c \<and> c \<le> 57)"

definition normalizeTitle :: "runtime \<Rightarrow> jsstring \<Rightarrow> bool \<Rightarrow> jsstring" where
  "normalizeTitle U str dropArticles =
     (let base = (if dropArticles then stripLeadingArticles U str else str)
      in filter isLowerAlnum
           (filter (\<lambda>c. \<not> isCombiningMark c) (normalizeNFD U (toLowerCase U base))))"

section \<open>Guess evaluator\<close>

record Movie =
  id' :: int
  title :: jsstring
  poster_path :: jsstring
  overview :: jsstring
  release_date :: "jsstring option"
  original_language :: "jsstring option"
  original_title :: "jsstring option"
  original_name :: "jsstring option"

text \<open>The first match of \<open>/(19|20)\d{2}/\<close> in the text, searched from the left.\<close>

fun yearMatch :: "jsstring \<Rightarrow> jsstring option" where
  "yearMatch (a # b # c # d # rest) =
     (if ((a = 49 \<and> b = 57) \<or> (a = 50 \<and> b = 48)) \<and> isDigit c \<and> isDigit d
      then Some [a, b, c, d]
      else yearMatch (b # c # d # rest))"
| "yearMatch s = None"

definition extractGuess :: "jsstring \<Rightarrow> jsstring \<times> jsstring" where
  "extractGuess raw =
     (let year = (case yearMatch raw of Some y \<Rightarrow> y | None \<Rightarrow> []);
          title1 = (if year \<noteq> [] then replaceFirst year [] raw else raw);
          title2 = trim (filter (\<lambda>c. c \<noteq> 40 \<and> c \<noteq> 41) title1)
      in (title2, year))"

text \<open>\<open>m?.release_date?.substring(0, 4) || ''\<close>\<close>

definition yearOf :: "Movie option \<Rightarrow> jsstring" where
  "yearOf m =
     (case m of
        None \<Rightarrow> []
      | Some mv \<Rightarrow> (case release_date mv of None \<Rightarrow> [] | Some d \<Rightarrow> substring 0 4 d))"

text \<open>
  The decision of \<open>validateGuess\<close> (the value of its local \<open>isCorrect\<close>) for a raw guess
  that is not blank, an autocomplete selection and the target.
\<close>

definition isCorrect :: "runtime \<Rightarrow> jsstring \<Rightarrow> Movie option \<Rightarrow> Movie option \<Rightarrow> bool" where
  "isCorrect U rawGuess selectedMovie targetMovie =
     (let (guessTitle, guessYear) = extractGuess rawGuess;
          targetTitle = (case targetMovie of None \<Rightarrow> [] | Some t \<Rightarrow> title t);
          targetOriginalTitle =
            (case targetMovie of
               None \<Rightarrow> []
             | Some t \<Rightarrow>
                 (case original_title t of
                    Some o1 \<Rightarrow> if o1 \<noteq> [] then o1
                               else (case original_name t of Some o2 \<Rightarrow> o2 | None \<Rightarrow> [])
                  | None \<Rightarrow> (case original_name t of Some o2 \<Rightarrow> o2 | None \<Rightarrow> [])));
          targetYear = yearOf targetMovie;
          guessYearMatches = (guessYear = [] \<or> targetYear = [] \<or> guessYear = targetYear)
      in case (selectedMovie, targetMovie) of
           (Some sel, Some tgt) \<Rightarrow>
             (let selectedYear = yearOf (Some sel)
              in if id' sel = id' tgt then True
                 else if selectedYear = [] \<or> targetYear = [] \<or> selectedYear = targetYear
                 then (let selectedTitle = normalizeTitle U (title sel) False;
                           selectedTitleNoArticle = normalizeTitle U (title sel) True;
                           targetTitleNorm = normalizeTitle U targetTitle False;
                           targetTitleNoArticle = normalizeTitle U targetTitle True
                       in selectedTitle = targetTitleNorm
                          \<or> selectedTitleNoArticle = targetTitleNoArticle)
                 else False)
         | _ \<Rightarrow>
             (let guessNorm = normalizeTitle U guessTitle False;
                  guessNoArticle = normalizeTitle U guessTitle True;
                  targetNorm = normalizeTitle U targetTitle False;
                  targetNoArticle = normalizeTitle U targetTitle True;
                  originalNorm = normalizeTitle U targetOriginalTitle False;
                  originalNoArticle = normalizeTitle U targetOriginalTitle True
              in guessYearMatches \<and>
                 (guessNorm = targetNorm
                  \<or> (originalNorm \<noteq> [] \<and> guessNorm = originalNorm)
                  \<or> guessNoArticle = targetNoArticle
                  \<or> (originalNoArticle \<noteq> [] \<and> guessNoArticle = originalNoArticle)
                  \<or> guessNorm = js ''win'')))"

section \<open>Clock and durable store\<close>

text \<open>
  What \<open>new Date()\<close> and \<open>Date.now()\<close> return when an operation runs: the local year, the
  month (0-based), the day of the month, and the epoch time in milliseconds.
\<close>

record clock =
  getFullYear :: int
  getMonth :: int
  getDate :: int
  dateNow :: int

definition getTodayKey :: "clock \<Rightarrow> jsstring" where
  "getTodayKey d =
     intToString (getFullYear d) @ padStart2 (intToString (getMonth d + 1))
       @ padStart2 (intToString (getDate d))"

definition formatDateForDisplay :: "jsstring \<Rightarrow> jsstring" where
  "formatDateForDisplay key =
     (let day = substring 6 8 key; month = substring 4 6 key; year = substring 2 4 key
      in day @ js ''/'' @ month @ js ''/'' @ year)"

text \<open>\<open>localStorage\<close>: a flat map from string keys to string values.\<close>

type_synonym storage = "jsstring \<rightharpoonup> jsstring"

text \<open>\<open>localStorage.getItem(k) || d\<close>: a missing or empty value gives the default.\<close>

definition getItemOr :: "storage \<Rightarrow> jsstring \<Rightarrow> jsstring \<Rightarrow> jsstring" where
  "getItemOr ls k d = (case ls k of None \<Rightarrow> d | Some v \<Rightarrow> if v = [] then d else v)"

abbreviation LS_DAILY_PREFIX :: jsstring where "LS_DAILY_PREFIX \<equiv> js ''dailyGameWon_''"
abbreviation LS_DAILY_HARD_PREFIX :: jsstring where "LS_DAILY_HARD_PREFIX \<equiv> js ''dailyHardGameWon_''"
abbreviation LS_DAILY_LOST_PREFIX :: jsstring where "LS_DAILY_LOST_PREFIX \<equiv> js ''dailyGameLost_''"
abbreviation LS_DAILY_HARD_LOST_PREFIX :: jsstring where
  "LS_DAILY_HARD_LOST_PREFIX \<equiv> js ''dailyHardGameLost_''"
abbreviation LS_SEEN_RANDOM :: jsstring where "LS_SEEN_RANDOM \<equiv> js ''seenRandomMovies''"
abbreviation LS_SEEN_RANDOM_TV :: jsstring where "LS_SEEN_RANDOM_TV \<equiv> js ''seenRandomTvShows''"
abbreviation LS_INFINITE_MEMORY :: jsstring where "LS_INFINITE_MEMORY \<equiv> js ''infiniteMemoryEnabled''"
abbreviation LS_INFINITE_COUNTRY_FILTER :: jsstring where
  "LS_INFINITE_COUNTRY_FILTER \<equiv> js ''infiniteCountryFilter''"
abbreviation LS_TMDB_TOKEN :: jsstring where "LS_TMDB_TOKEN \<equiv> js ''tmdbToken''"
abbreviation LS_MEDIA_MODE :: jsstring where "LS_MEDIA_MODE \<equiv> js ''mediaMode''"
abbreviation LS_CURRENT_STREAK :: jsstring where "LS_CURRENT_STREAK \<equiv> js ''infiniteCurrentStreak''"
abbreviation LS_TODAY_BEST_PREFIX :: jsstring where "LS_TODAY_BEST_PREFIX \<equiv> js ''infiniteTodayBest_''"
abbreviation LS_ALL_TIME_BEST :: jsstring where "LS_ALL_TIME_BEST \<equiv> js ''infiniteAllTimeBest''"
abbreviation LS_CURRENT_STREAK_HARD :: jsstring where
  "LS_CURRENT_STREAK_HARD \<equiv> js ''infiniteHardCurrentStreak''"
abbreviation LS_TODAY_BEST_HARD_PREFIX :: jsstring where
  "LS_TODAY_BEST_HARD_PREFIX \<equiv> js ''infiniteHardTodayBest_''"
abbreviation LS_ALL_TIME_BEST_HARD :: jsstring where
  "LS_ALL_TIME_BEST_HARD \<equiv> js ''infiniteHardAllTimeBest''"
abbreviation LS_CURRENT_STREAK_TV :: jsstring where
  "LS_CURRENT_STREAK_TV \<equiv> js ''infiniteCurrentStreakTv''"
abbreviation LS_TODAY_BEST_PREFIX_TV :: jsstring where
  "LS_TODAY_BEST_PREFIX_TV \<equiv> js ''infiniteTodayBestTv_''"
abbreviation LS_ALL_TIME_BEST_TV :: jsstring where "LS_ALL_TIME_BEST_TV \<equiv> js ''infiniteAllTimeBestTv''"
abbreviation LS_CURRENT_STREAK_HARD_TV :: jsstring where
  "LS_CURRENT_STREAK_HARD_TV \<equiv> js ''infiniteHardCurrentStreakTv''"
abbreviation LS_TODAY_BEST_HARD_PREFIX_TV :: jsstring where
  "LS_TODAY_BEST_HARD_PREFIX_TV \<equiv> js ''infiniteHardTodayBestTv_''"
abbreviation LS_ALL_TIME_BEST_HARD_TV :: jsstring where
  "LS_ALL_TIME_BEST_HARD_TV \<equiv> js ''infiniteHardAllTimeBestTv''"
abbreviation LS_DAILY_MOVIE_PREFIX :: jsstring where "LS_DAILY_MOVIE_PREFIX \<equiv> js ''dailyMovieId_''"
abbreviation LS_DAILY_HARD_MOVIE_PREFIX :: jsstring where
  "LS_DAILY_HARD_MOVIE_PREFIX \<equiv> js ''dailyHardMovieId_''"
abbreviation LS_DAILY_TV_PREFIX :: jsstring where "LS_DAILY_TV_PREFIX \<equiv> js ''dailyTvShowId_''"
abbreviation LS_DAILY_HARD_TV_PREFIX :: jsstring where
  "LS_DAILY_HARD_TV_PREFIX \<equiv> js ''dailyHardTvShowId_''"

section \<open>Deterministic picker (MovieService)\<close>

text \<open>
  \<open>Math.sin\<close> is a parameter (\<open>msin\<close>); the arithmetic around it is done on the reals.
  \<open>Math.floor\<close> is \<open>floor\<close>.
\<close>

definition pseudoRandom :: "(real \<Rightarrow> real) \<Rightarrow> int \<Rightarrow> int" where
  "pseudoRandom msin seed =
     (let x = msin (of_int seed) * 10000
      in \<lfloor>(x - of_int \<lfloor>x\<rfloor>) * 1000000\<rfloor>)"

text \<open>The remainder operator \<open>%\<close> of JavaScript on integers: the sign follows the dividend.\<close>

definition jsrem :: "int \<Rightarrow> int \<Rightarrow> int" where
  "jsrem a b = (if a < 0 then - ((- a) mod \<bar>b\<bar>) else a mod \<bar>b\<bar>)"

definition seedBase :: "clock \<Rightarrow> int \<Rightarrow> int" where
  "seedBase today seedOffset =
     getFullYear today * 10000 + (getMonth today + 1) * 100 + getDate today + seedOffset"

definition dailyPage :: "(real \<Rightarrow> real) \<Rightarrow> clock \<Rightarrow> int \<Rightarrow> int" where
  "dailyPage msin today seedOffset =
     jsrem (pseudoRandom msin (seedBase today seedOffset + 9999)) 50 + 1"

definition dailyIndex :: "(real \<Rightarrow> real) \<Rightarrow> clock \<Rightarrow> int \<Rightarrow> Movie list \<Rightarrow> int" where
  "dailyIndex msin today seedOffset movies =
     jsrem (pseudoRandom msin (seedBase today seedOffset)) (int (length movies))"

datatype error = HttpError | NoMoviesAvailable | NoTvShowsAvailable

text \<open>
  The remote catalog: the response to the request for a page of popular titles (movies or
  TV shows, the latter already mapped by \<open>mapTvToMovie\<close>), and to the request for one title.
\<close>

record catalog =
  popularMovies :: "int \<Rightarrow> error + Movie list"
  popularTv :: "int \<Rightarrow> error + Movie list"
  movieById :: "int \<Rightarrow> error + Movie"
  tvShowById :: "int \<Rightarrow> error + Movie"

text \<open>
  \<open>getPopularMoviesPage\<close>, \<open>getPopularTvPage\<close>: titles without a poster are filtered out.
  The page caches (\<open>moviesPageCache\<close>, \<open>tvPageCache\<close>) only replay the response of the first
  request for a page; the catalog is a function of the page, so they are not modelled.
\<close>

definition getPopularMoviesPage :: "catalog \<Rightarrow> int \<Rightarrow> error + Movie list" where
  "getPopularMoviesPage cat page =
     (case popularMovies cat page of
        Inl e \<Rightarrow> Inl e
      | Inr results \<Rightarrow> Inr (filter (\<lambda>m. poster_path m \<noteq> []) results))"

definition getPopularTvPage :: "catalog \<Rightarrow> int \<Rightarrow> error + Movie list" where
  "getPopularTvPage cat page =
     (case popularTv cat page of
        Inl e \<Rightarrow> Inl e
      | Inr results \<Rightarrow> Inr (filter (\<lambda>m. poster_path m \<noteq> []) results))"

text \<open>
  The selection inside \<open>pickAndStoreDailyMovie\<close> once the page has arrived: the index, the
  picked title, and the store with the picked id written under the day's key.
\<close>

definition pickFromPage ::
  "error \<Rightarrow> (real \<Rightarrow> real) \<Rightarrow> clock \<Rightarrow> int \<Rightarrow> jsstring \<Rightarrow> Movie list \<Rightarrow> storage
     \<Rightarrow> error + (int \<times> Movie \<times> storage)" where
  "pickFromPage err msin today seedOffset storageKey movies ls =
     (if movies = [] then Inl err
      else let index = dailyIndex msin today seedOffset movies;
               picked = movies ! nat index
           in Inr (index, picked,
                   if id' picked \<noteq> 0 then ls(storageKey \<mapsto> intToString (id' picked)) else ls))"

definition pickAndStoreDailyMovie ::
  "(real \<Rightarrow> real) \<Rightarrow> catalog \<Rightarrow> clock \<Rightarrow> int \<Rightarrow> jsstring \<Rightarrow> jsstring \<Rightarrow> storage
     \<Rightarrow> error + (int \<times> int \<times> Movie \<times> storage)" where
  "pickAndStoreDailyMovie msin cat today seedOffset storagePrefix todayKey ls =
     (let page = dailyPage msin today seedOffset
      in case getPopularMoviesPage cat page of
           Inl e \<Rightarrow> Inl e
         | Inr movies \<Rightarrow>
             (case pickFromPage NoMoviesAvailable msin today seedOffset (storagePrefix @ todayKey)
                     movies ls of
                Inl e \<Rightarrow> Inl e
              | Inr r \<Rightarrow> Inr (page, r)))"

definition pickAndStoreDailyTvShow ::
  "(real \<Rightarrow> real) \<Rightarrow> catalog \<Rightarrow> clock \<Rightarrow> int \<Rightarrow> jsstring \<Rightarrow> jsstring \<Rightarrow> storage
     \<Rightarrow> error + (int \<times> int \<times> Movie \<times> storage)" where
  "pickAndStoreDailyTvShow msin cat today seedOffset storagePrefix todayKey ls =
     (let page = dailyPage msin today seedOffset
      in case getPopularTvPage cat page of
           Inl e \<Rightarrow> Inl e
         | Inr shows \<Rightarrow>
             (case pickFromPage NoTvShowsAvailable msin today seedOffset (storagePrefix @ todayKey)
                     shows ls of
                Inl e \<Rightarrow> Inl e
              | Inr r \<Rightarrow> Inr (page, r)))"


text \<open>
  \<open>getDailyMovieInternal\<close>: a stored id that parses is fetched again; when that fails, or
  when there is none, the picker runs. The result is the title and the store.
\<close>

definition getDailyMovieInternal ::
  "(real \<Rightarrow> real) \<Rightarrow> catalog \<Rightarrow> clock \<Rightarrow> int \<Rightarrow> jsstring \<Rightarrow> storage \<Rightarrow> error + (Movie \<times> storage)" where
  "getDailyMovieInternal msin cat today seedOffset storagePrefix ls =
     (let todayKey = getTodayKey today;
          pick = (case pickAndStoreDailyMovie msin cat today seedOffset storagePrefix todayKey ls of
                    Inl e \<Rightarrow> Inl e
                  | Inr (page, index, picked, ls') \<Rightarrow> Inr (picked, ls'))
      in case ls (storagePrefix @ todayKey) of
           None \<Rightarrow> pick
         | Some storedId \<Rightarrow>
             if storedId = [] then pick
             else (case parseInt storedId of
                     NaN \<Rightarrow> pick
                   | Num i \<Rightarrow> (case movieById cat i of Inl e \<Rightarrow> pick | Inr m \<Rightarrow> Inr (m, ls))))"

definition getDailyTvInternal ::
  "(real \<Rightarrow> real) \<Rightarrow> catalog \<Rightarrow> clock \<Rightarrow> int \<Rightarrow> jsstring \<Rightarrow> storage \<Rightarrow> error + (Movie \<times> storage)" where
  "getDailyTvInternal msin cat today seedOffset storagePrefix ls =
     (let todayKey = getTodayKey today;
          pick = (case pickAndStoreDailyTvShow msin cat today seedOffset storagePrefix todayKey ls of
                    Inl e \<Rightarrow> Inl e
                  | Inr (page, index, picked, ls') \<Rightarrow> Inr (picked, ls'))
      in case ls (storagePrefix @ todayKey) of
           None \<Rightarrow> pick
         | Some storedId \<Rightarrow>
             if storedId = [] then pick
             else (case parseInt storedId of
                     NaN \<Rightarrow> pick
                   | Num i \<Rightarrow> (case tvShowById cat i of Inl e \<Rightarrow> pick | Inr m \<Rightarrow> Inr (m, ls))))"

definition getDailyMovie :: "(real \<Rightarrow> real) \<Rightarrow> catalog \<Rightarrow> clock \<Rightarrow> storage \<Rightarrow> error + (Movie \<times> storage)" where
  "getDailyMovie msin cat today ls = getDailyMovieInternal msin cat today 0 LS_DAILY_MOVIE_PREFIX ls"

definition getDailyMovieHard :: "(real \<Rightarrow> real) \<Rightarrow> catalog \<Rightarrow> clock \<Rightarrow> storage \<Rightarrow> error + (Movie \<times> storage)" where
  "getDailyMovieHard msin cat today ls =
     getDailyMovieInternal msin cat today 12345 LS_DAILY_HARD_MOVIE_PREFIX ls"

definition getDailyTvShow :: "(real \<Rightarrow> real) \<Rightarrow> catalog \<Rightarrow> clock \<Rightarrow> storage \<Rightarrow> error + (Movie \<times> storage)" where
  "getDailyTvShow msin cat today ls = getDailyTvInternal msin cat today 0 LS_DAILY_TV_PREFIX ls"

definition getDailyTvShowHard :: "(real \<Rightarrow> real) \<Rightarrow> catalog \<Rightarrow> clock \<Rightarrow> storage \<Rightarrow> error + (Movie \<times> storage)" where
  "getDailyTvShowHard msin cat today ls =
     getDailyTvInternal msin cat today 12345 LS_DAILY_HARD_TV_PREFIX ls"

section \<open>Session state (PosterGameComponent)\<close>

text \<open>
  The tabs \<open>'daily' | 'hard' | 'infinite' | 'infinite-hard'\<close>, the media kinds
  \<open>'movie' | 'tv'\<close>, the status \<open>'loading' | 'playing' | 'won' | 'lost'\<close>, the strip effects
  \<open>'' | 'rotate180' | 'grayscale' | 'blackout'\<close> and the language filter \<open>'all' | 'fr_en'\<close>.
\<close>

datatype Tab = Daily | Hard | Infinite | InfiniteHard

datatype MediaMode = MovieMode | TvMode

datatype GameStatus = Loading | Playing | Won | Lost

datatype StripEffect = NoEffect | Rotate180 | Grayscale | Blackout

datatype CountryFilter = AllCountries | FrEn

record WrongGuess =
  guess :: jsstring
  year :: "jsstring option"

record PosterGame =
  activeTab :: Tab
  mediaMode :: MediaMode
  movie :: "Movie option"
  currentStepIndex :: nat
  userGuess :: jsstring
  gameStatus :: GameStatus
  suggestions :: "Movie list"
  wrongGuesses :: "WrongGuess list"
  showGiveUpConfirm :: bool
  showLeaveConfirm :: bool
  pendingTab :: "Tab option"
  pendingMediaMode :: "MediaMode option"
  showClearCacheConfirm :: bool
  selectedMovieFromAutocomplete :: "Movie option"
  dailyCompleted :: bool
  dailyCompletedDate :: jsstring
  imdbUrl :: jsstring
  showApiKeyPrompt :: bool
  apiKeyInput :: jsstring
  apiKeyError :: jsstring
  showSettings :: bool
  infiniteMemoryEnabled :: bool
  infiniteCountryFilter :: CountryFilter
  currentStreak :: jsnum
  todayBestStreak :: jsnum
  allTimeBestStreak :: jsnum
  stripEffects :: "StripEffect list"
  initialized :: bool
  localStorage :: storage

text \<open>The component as constructed, before \<open>ngOnInit\<close>, over the browser's store.\<close>

definition newComponent :: "storage \<Rightarrow> PosterGame" where
  "newComponent ls =
     \<lparr> activeTab = Daily, mediaMode = MovieMode, movie = None, currentStepIndex = 0,
       userGuess = [], gameStatus = Loading, suggestions = [], wrongGuesses = [],
       showGiveUpConfirm = False, showLeaveConfirm = False, pendingTab = None,
       pendingMediaMode = None, showClearCacheConfirm = False,
       selectedMovieFromAutocomplete = None, dailyCompleted = False, dailyCompletedDate = [],
       imdbUrl = [], showApiKeyPrompt = False, apiKeyInput = [], apiKeyError = [],
       showSettings = False, infiniteMemoryEnabled = True, infiniteCountryFilter = AllCountries,
       currentStreak = Num 0, todayBestStreak = Num 0, allTimeBestStreak = Num 0,
       stripEffects = [], initialized = False, localStorage = ls \<rparr>"

definition progressionSteps :: "nat list" where
  "progressionSteps = [100, 75, 50, 25, 10]"

definition isInfiniteTab :: "Tab \<Rightarrow> bool" where
  "isInfiniteTab tab \<longleftrightarrow> tab = Infinite \<or> tab = InfiniteHard"

definition mediaModeString :: "MediaMode \<Rightarrow> jsstring" where
  "mediaModeString m = (case m of MovieMode \<Rightarrow> js ''movie'' | TvMode \<Rightarrow> js ''tv'')"

definition getStreakStorageKeys :: "Tab \<Rightarrow> PosterGame \<Rightarrow> jsstring \<times> jsstring \<times> jsstring" where
  "getStreakStorageKeys mode s =
     (let isTv = (mediaMode s = TvMode)
      in if mode = Infinite
         then (if isTv then LS_CURRENT_STREAK_TV else LS_CURRENT_STREAK,
               if isTv then LS_TODAY_BEST_PREFIX_TV else LS_TODAY_BEST_PREFIX,
               if isTv then LS_ALL_TIME_BEST_TV else LS_ALL_TIME_BEST)
         else (if isTv then LS_CURRENT_STREAK_HARD_TV else LS_CURRENT_STREAK_HARD,
               if isTv then LS_TODAY_BEST_HARD_PREFIX_TV else LS_TODAY_BEST_HARD_PREFIX,
               if isTv then LS_ALL_TIME_BEST_HARD_TV else LS_ALL_TIME_BEST_HARD))"

definition loadStreakData :: "clock \<Rightarrow> Tab \<Rightarrow> PosterGame \<Rightarrow> PosterGame" where
  "loadStreakData clk mode s =
     (let today = getTodayKey clk;
          (currentKey, todayKey, allTimeKey) = getStreakStorageKeys mode s;
          ls = localStorage s
      in s\<lparr> currentStreak := parseInt (getItemOr ls currentKey (js ''0'')),
            todayBestStreak := parseInt (getItemOr ls (todayKey @ today) (js ''0'')),
            allTimeBestStreak := parseInt (getItemOr ls allTimeKey (js ''0'')) \<rparr>)"

definition saveStreakData :: "clock \<Rightarrow> Tab \<Rightarrow> PosterGame \<Rightarrow> PosterGame" where
  "saveStreakData clk mode s =
     (let today = getTodayKey clk;
          (currentKey, todayKey, allTimeKey) = getStreakStorageKeys mode s;
          ls1 = (localStorage s)(currentKey \<mapsto> numToString (currentStreak s));
          ls2 = ls1(todayKey @ today \<mapsto> numToString (todayBestStreak s));
          ls3 = ls2(allTimeKey \<mapsto> numToString (allTimeBestStreak s))
      in s\<lparr> localStorage := ls3 \<rparr>)"

definition getDailyStoragePrefix :: "Tab \<Rightarrow> bool \<Rightarrow> PosterGame \<Rightarrow> jsstring" where
  "getDailyStoragePrefix tab win s =
     (let base = (if tab = Daily
                  then (if win then LS_DAILY_PREFIX else LS_DAILY_LOST_PREFIX)
                  else (if win then LS_DAILY_HARD_PREFIX else LS_DAILY_HARD_LOST_PREFIX));
          suffix = (if mediaMode s = TvMode then js ''tv'' else js ''movie'')
      in base @ suffix @ js ''_'')"

definition markDailyWin :: "clock \<Rightarrow> Tab \<Rightarrow> PosterGame \<Rightarrow> PosterGame" where
  "markDailyWin clk tab s =
     (let today = getTodayKey clk;
          lsKey = getDailyStoragePrefix tab True s;
          lsLostKey = getDailyStoragePrefix tab False s;
          ls1 = (localStorage s)(lsKey @ today \<mapsto> js ''true'');
          ls2 = ls1(lsLostKey @ today := None)
      in s\<lparr> localStorage := ls2, dailyCompleted := True,
            dailyCompletedDate := formatDateForDisplay today \<rparr>)"

definition markDailyLoss :: "clock \<Rightarrow> Tab \<Rightarrow> PosterGame \<Rightarrow> PosterGame" where
  "markDailyLoss clk tab s =
     (let today = getTodayKey clk;
          lsKey = getDailyStoragePrefix tab False s;
          lsWinKey = getDailyStoragePrefix tab True s;
          ls1 = (localStorage s)(lsKey @ today \<mapsto> js ''true'');
          ls2 = ls1(lsWinKey @ today := None)
      in s\<lparr> localStorage := ls2 \<rparr>)"

definition syncDailyOutcome :: "clock \<Rightarrow> Tab \<Rightarrow> PosterGame \<Rightarrow> PosterGame" where
  "syncDailyOutcome clk tab s =
     (let today = getTodayKey clk;
          lsWinKey = getDailyStoragePrefix tab True s;
          lsLostKey = getDailyStoragePrefix tab False s;
          dailyWon = localStorage s (lsWinKey @ today);
          dailyLost = localStorage s (lsLostKey @ today);
          s1 = s\<lparr> dailyCompleted := False \<rparr>
      in if dailyWon = Some (js ''true'')
         then s1\<lparr> dailyCompleted := True, dailyCompletedDate := formatDateForDisplay today,
                  gameStatus := Won \<rparr>
         else if dailyLost = Some (js ''true'')
         then s1\<lparr> dailyCompletedDate := formatDateForDisplay today, gameStatus := Lost \<rparr>
         else s1)"

subsection \<open>Strip effects\<close>

text \<open>
  \<open>progressionSteps[currentStepIndex]\<close>; \<open>None\<close> is JavaScript's \<open>undefined\<close> for an index
  outside the array.
\<close>

definition currentStripCount :: "PosterGame \<Rightarrow> nat option" where
  "currentStripCount s =
     (if currentStepIndex s < length progressionSteps
      then Some (progressionSteps ! currentStepIndex s) else None)"

text \<open>
  The effect chosen for one draw \<open>rand\<close> of \<open>Math.random()\<close> (the body of the loop of
  \<open>generateStripEffects\<close>); the decimal literals are read as real numbers.
\<close>

definition effectFor :: "real \<Rightarrow> StripEffect" where
  "effectFor rand =
     (if rand < 0.4 then NoEffect
      else if rand < 0.6 then Rotate180
      else if rand < 0.8 then Grayscale
      else Blackout)"

text \<open>The loop of \<open>generateStripEffects\<close>; \<open>rnd i\<close> is the draw of iteration \<open>i\<close>.\<close>

function stripEffectsLoop :: "nat \<Rightarrow> nat \<Rightarrow> (nat \<Rightarrow> real) \<Rightarrow> StripEffect list \<Rightarrow> StripEffect list" where
  "stripEffectsLoop i count rnd effects =
     (if i < count then stripEffectsLoop (i + 1) count rnd (effects @ [effectFor (rnd i)])
      else effects)"
  by pat_completeness auto
termination
  by (relation "measure (\<lambda>(i, count, rnd, effects). count - i)") auto

declare stripEffectsLoop.simps [simp del]

definition generateStripEffects :: "(nat \<Rightarrow> real) \<Rightarrow> PosterGame \<Rightarrow> PosterGame" where
  "generateStripEffects rnd s =
     (case currentStripCount s of
        None \<Rightarrow> s\<lparr> stripEffects := [] \<rparr>
      | Some count \<Rightarrow> s\<lparr> stripEffects := stripEffectsLoop 0 count rnd [] \<rparr>)"

definition getStripEffect :: "PosterGame \<Rightarrow> nat \<Rightarrow> StripEffect" where
  "getStripEffect s index =
     (let effects = stripEffects s
      in if activeTab s \<noteq> Hard \<and> activeTab s \<noteq> InfiniteHard then NoEffect
         else if effects = [] then NoEffect
         else if index < length effects then effects ! index else NoEffect)"

definition remainingAttempts :: "PosterGame \<Rightarrow> nat" where
  "remainingAttempts s = length progressionSteps - currentStepIndex s"

definition isRandomDisabled :: "PosterGame \<Rightarrow> bool" where
  "isRandomDisabled s \<longleftrightarrow>
     gameStatus s = Loading \<or> (gameStatus s = Playing \<and> currentStepIndex s > 0)"

subsection \<open>Seen-recently list\<close>

definition getSeenRandomKey :: "PosterGame \<Rightarrow> jsstring" where
  "getSeenRandomKey s = (if mediaMode s = TvMode then LS_SEEN_RANDOM_TV else LS_SEEN_RANDOM)"

definition getSeenRandomMovies :: "runtime \<Rightarrow> clock \<Rightarrow> PosterGame \<Rightarrow> SeenMovie list" where
  "getSeenRandomMovies U clk s =
     (case localStorage s (getSeenRandomKey s) of
        None \<Rightarrow> []
      | Some stored \<Rightarrow>
          if stored = [] then []
          else (case jsonParse U stored of
                  None \<Rightarrow> []
                | Some parsed \<Rightarrow> filter (\<lambda>x. expiry x > dateNow clk) parsed))"

definition addSeenRandomMovie :: "runtime \<Rightarrow> clock \<Rightarrow> int \<Rightarrow> PosterGame \<Rightarrow> PosterGame" where
  "addSeenRandomMovie U clk newId s =
     (let seen = getSeenRandomMovies U clk s;
          expiry' = dateNow clk + 2 * 24 * 60 * 60 * 1000;
          seen' = seen @ [\<lparr> movieId = newId, expiry = expiry' \<rparr>]
      in s\<lparr> localStorage := (localStorage s)(getSeenRandomKey s \<mapsto> jsonStringify U seen') \<rparr>)"

definition markCurrentMovieSeen :: "runtime \<Rightarrow> clock \<Rightarrow> PosterGame \<Rightarrow> PosterGame" where
  "markCurrentMovieSeen U clk s =
     (case movie s of
        None \<Rightarrow> s
      | Some m \<Rightarrow>
          if isInfiniteTab (activeTab s) \<and> infiniteMemoryEnabled s
          then addSeenRandomMovie U clk (id' m) s else s)"

subsection \<open>Loading a puzzle\<close>

text \<open>
  The catalog requests are asynchronous. An operation that issues one returns the state it
  leaves behind; what the subscriber does when the response arrives is a function of its
  own (\<open>..._next\<close>, \<open>..._error\<close>). \<open>fetchImdbLink\<close> only issues a request, so it does not
  appear in the operations; its subscriber is \<open>fetchImdbLink_next\<close> / \<open>fetchImdbLink_error\<close>.
  The title of an infinite round is the one \<open>getRandomMovie\<close> or \<open>getRandomTvShow\<close> emits
  (a choice by \<open>Math.random\<close> among the titles of a page, the seen ones and the language
  filter taken into account): the subscriber takes it as it comes.
\<close>

definition loadInfiniteMovie :: "PosterGame \<Rightarrow> PosterGame" where
  "loadInfiniteMovie s =
     s\<lparr> gameStatus := Loading, currentStepIndex := 0, userGuess := [], wrongGuesses := [],
        showGiveUpConfirm := False, selectedMovieFromAutocomplete := None, stripEffects := [] \<rparr>"

definition loadInfiniteMovie_next :: "(nat \<Rightarrow> real) \<Rightarrow> Movie \<Rightarrow> PosterGame \<Rightarrow> PosterGame" where
  "loadInfiniteMovie_next rnd m s =
     (let s1 = s\<lparr> movie := Some m, imdbUrl := [], gameStatus := Playing \<rparr>
      in if activeTab s1 = InfiniteHard then generateStripEffects rnd s1 else s1)"

definition loadInfiniteMovie_error :: "PosterGame \<Rightarrow> PosterGame" where
  "loadInfiniteMovie_error s = s\<lparr> gameStatus := Lost \<rparr>"

definition loadNextInfiniteMovie :: "PosterGame \<Rightarrow> PosterGame" where
  "loadNextInfiniteMovie s = loadInfiniteMovie s"

text \<open>The subscriber of the daily request issued by \<open>switchTab\<close> for \<open>tab\<close>.\<close>

definition switchTab_next :: "(nat \<Rightarrow> real) \<Rightarrow> Tab \<Rightarrow> Movie \<Rightarrow> PosterGame \<Rightarrow> PosterGame" where
  "switchTab_next rnd tab m s =
     (let s1 = s\<lparr> movie := Some m, imdbUrl := [] \<rparr>
      in if dailyCompleted s1 then s1\<lparr> gameStatus := Won \<rparr>
         else if gameStatus s1 = Lost then s1\<lparr> showGiveUpConfirm := False \<rparr>
         else (let s2 = s1\<lparr> gameStatus := Playing \<rparr>
               in if tab = Hard then generateStripEffects rnd s2 else s2))"

text \<open>The subscriber of the daily request issued by \<open>loadForCurrentTab\<close> for \<open>tab\<close>.\<close>

definition loadForCurrentTab_next :: "(nat \<Rightarrow> real) \<Rightarrow> Tab \<Rightarrow> Movie \<Rightarrow> PosterGame \<Rightarrow> PosterGame" where
  "loadForCurrentTab_next rnd tab m s =
     (switchTab_next rnd tab m s)\<lparr> wrongGuesses := [], showGiveUpConfirm := False \<rparr>"

definition loadForCurrentTab :: "clock \<Rightarrow> PosterGame \<Rightarrow> PosterGame" where
  "loadForCurrentTab clk s =
     (let tab = activeTab s
      in if isInfiniteTab tab then loadInfiniteMovie (loadStreakData clk tab s) else s)"

definition switchTab :: "clock \<Rightarrow> Tab \<Rightarrow> bool \<Rightarrow> PosterGame \<Rightarrow> PosterGame" where
  "switchTab clk tab force s =
     (if \<not> force \<and> activeTab s = tab then s
      else let s1 = s\<lparr> activeTab := tab, gameStatus := Loading, currentStepIndex := 0,
                       userGuess := [], wrongGuesses := [], showGiveUpConfirm := False,
                       selectedMovieFromAutocomplete := None, dailyCompleted := False,
                       stripEffects := [] \<rparr>
           in if isInfiniteTab tab then loadInfiniteMovie (loadStreakData clk tab s1)
              else syncDailyOutcome clk tab s1)"

definition fetchImdbLink_next :: "jsstring option \<Rightarrow> PosterGame \<Rightarrow> PosterGame" where
  "fetchImdbLink_next imdb_id s =
     (case imdb_id of
        None \<Rightarrow> s\<lparr> imdbUrl := [] \<rparr>
      | Some i \<Rightarrow>
          s\<lparr> imdbUrl := (if i = [] then [] else js ''https://www.imdb.com/title/'' @ i @ js ''/'') \<rparr>)"

definition fetchImdbLink_error :: "PosterGame \<Rightarrow> PosterGame" where
  "fetchImdbLink_error s = s\<lparr> imdbUrl := [] \<rparr>"

subsection \<open>Start-up and settings\<close>

definition initializeWithToken :: "clock \<Rightarrow> PosterGame \<Rightarrow> PosterGame" where
  "initializeWithToken clk s =
     (if initialized s then s
      else let s1 = s\<lparr> initialized := True \<rparr>;
               active = activeTab s1;
               s2 = (if active = Daily \<or> active = Hard then syncDailyOutcome clk active s1 else s1)
           in loadForCurrentTab clk s2)"

definition ngOnInit :: "clock \<Rightarrow> PosterGame \<Rightarrow> PosterGame" where
  "ngOnInit clk s =
     (let ls = localStorage s;
          s1 = (if ls LS_MEDIA_MODE = Some (js ''tv'') then s\<lparr> mediaMode := TvMode \<rparr> else s);
          s2 = s1\<lparr> infiniteMemoryEnabled := (ls LS_INFINITE_MEMORY \<noteq> Some (js ''false'')) \<rparr>;
          s3 = (if ls LS_INFINITE_COUNTRY_FILTER = Some (js ''fr_en'')
                then s2\<lparr> infiniteCountryFilter := FrEn \<rparr> else s2);
          s4 = loadStreakData clk Infinite s3
      in if getItemOr ls LS_TMDB_TOKEN [] = [] then s4\<lparr> showApiKeyPrompt := True \<rparr>
         else initializeWithToken clk s4)"

definition setMediaMode :: "clock \<Rightarrow> MediaMode \<Rightarrow> PosterGame \<Rightarrow> PosterGame" where
  "setMediaMode clk mode s =
     (if mediaMode s = mode then s
      else if isInfiniteTab (activeTab s)
      then s\<lparr> pendingMediaMode := Some mode, showLeaveConfirm := True \<rparr>
      else switchTab clk (activeTab s) True
             (s\<lparr> mediaMode := mode,
                 localStorage := (localStorage s)(LS_MEDIA_MODE \<mapsto> mediaModeString mode) \<rparr>))"

definition toggleSettings :: "PosterGame \<Rightarrow> PosterGame" where
  "toggleSettings s = s\<lparr> showSettings := \<not> showSettings s \<rparr>"

definition toggleInfiniteMemory :: "PosterGame \<Rightarrow> PosterGame" where
  "toggleInfiniteMemory s =
     (let v = \<not> infiniteMemoryEnabled s
      in s\<lparr> infiniteMemoryEnabled := v,
            localStorage := (localStorage s)(LS_INFINITE_MEMORY \<mapsto> (if v then js ''true'' else js ''false'')) \<rparr>)"

definition setInfiniteCountryFilter :: "jsstring \<Rightarrow> PosterGame \<Rightarrow> PosterGame" where
  "setInfiniteCountryFilter v s =
     (let next = (if v = js ''fr_en'' then FrEn else AllCountries)
      in s\<lparr> infiniteCountryFilter := next,
            localStorage := (localStorage s)(LS_INFINITE_COUNTRY_FILTER \<mapsto>
              (case next of FrEn \<Rightarrow> js ''fr_en'' | AllCountries \<Rightarrow> js ''all'')) \<rparr>)"

text \<open>
  \<open>submitApiKey\<close>; the two messages are \<open>Veuillez coller une cl\'e API valide.\<close> and
  \<open>Cl\'e invalide ou refus\'ee par TMDB.\<close> (code unit 233 is the accented e).
\<close>

definition submitApiKey :: "PosterGame \<Rightarrow> PosterGame" where
  "submitApiKey s =
     (let token = trim (apiKeyInput s)
      in if token = []
         then s\<lparr> apiKeyError := js ''Veuillez coller une cl'' @ [233] @ js '' API valide.'' \<rparr>
         else s\<lparr> apiKeyError := [] \<rparr>)"

text \<open>The subscriber of \<open>validateToken(token)\<close>.\<close>

definition submitApiKey_next :: "clock \<Rightarrow> jsstring \<Rightarrow> bool \<Rightarrow> PosterGame \<Rightarrow> PosterGame" where
  "submitApiKey_next clk token ok s =
     (if \<not> ok
      then s\<lparr> apiKeyError := js ''Cl'' @ [233] @ js '' invalide ou refus'' @ [233] @ js ''e par TMDB.'' \<rparr>
      else initializeWithToken clk
             (s\<lparr> localStorage := (localStorage s)(LS_TMDB_TOKEN \<mapsto> token),
                 showApiKeyPrompt := False, apiKeyInput := [], apiKeyError := [] \<rparr>))"

subsection \<open>Switching tab or media kind\<close>

definition requestTabSwitch :: "clock \<Rightarrow> Tab \<Rightarrow> PosterGame \<Rightarrow> PosterGame" where
  "requestTabSwitch clk tab s =
     (if activeTab s = tab then s
      else if isInfiniteTab (activeTab s)
      then s\<lparr> pendingTab := Some tab, showLeaveConfirm := True \<rparr>
      else switchTab clk tab False s)"

definition confirmLeaveTab :: "clock \<Rightarrow> PosterGame \<Rightarrow> PosterGame" where
  "confirmLeaveTab clk s =
     (let s1 = (if isInfiniteTab (activeTab s)
                then saveStreakData clk (if activeTab s = InfiniteHard then InfiniteHard else Infinite)
                       (s\<lparr> currentStreak := Num 0 \<rparr>)
                else s)
      in case pendingMediaMode s1 of
           Some pendingMode \<Rightarrow>
             switchTab clk (activeTab s1) True
               (s1\<lparr> mediaMode := pendingMode,
                    localStorage := (localStorage s1)(LS_MEDIA_MODE \<mapsto> mediaModeString pendingMode),
                    pendingMediaMode := None, showLeaveConfirm := False \<rparr>)
         | None \<Rightarrow>
             (case pendingTab s1 of
                None \<Rightarrow> s1
              | Some target \<Rightarrow>
                  switchTab clk target False (s1\<lparr> showLeaveConfirm := False, pendingTab := None \<rparr>)))"

definition cancelLeaveTab :: "PosterGame \<Rightarrow> PosterGame" where
  "cancelLeaveTab s = s\<lparr> showLeaveConfirm := False, pendingTab := None, pendingMediaMode := None \<rparr>"

subsection \<open>Guessing\<close>

definition onInput :: "jsstring \<Rightarrow> PosterGame \<Rightarrow> PosterGame" where
  "onInput term s = s\<lparr> userGuess := term, selectedMovieFromAutocomplete := None \<rparr>"

text \<open>The subscriber of the debounced search.\<close>

definition searchTerms_next :: "Movie list \<Rightarrow> PosterGame \<Rightarrow> PosterGame" where
  "searchTerms_next movies s = s\<lparr> suggestions := movies \<rparr>"

definition selectSuggestion :: "Movie \<Rightarrow> PosterGame \<Rightarrow> PosterGame" where
  "selectSuggestion m s =
     (let y = yearOf (Some m)
      in s\<lparr> userGuess := (if y \<noteq> [] then title m @ js '' ('' @ y @ js '')'' else title m),
            selectedMovieFromAutocomplete := Some m, suggestions := [] \<rparr>)"

definition giveUp :: "PosterGame \<Rightarrow> PosterGame" where
  "giveUp s = s\<lparr> showGiveUpConfirm := True \<rparr>"

definition cancelGiveUp :: "PosterGame \<Rightarrow> PosterGame" where
  "cancelGiveUp s = s\<lparr> showGiveUpConfirm := False \<rparr>"

text \<open>\<open>a > b\<close> and \<open>s + 1\<close> on JavaScript numbers: a comparison with NaN is false.\<close>

fun numGreater :: "jsnum \<Rightarrow> jsnum \<Rightarrow> bool" where
  "numGreater (Num a) (Num b) = (a > b)"
| "numGreater a b = False"

fun numSucc :: "jsnum \<Rightarrow> jsnum" where
  "numSucc (Num a) = Num (a + 1)"
| "numSucc NaN = NaN"

definition confirmGiveUp :: "runtime \<Rightarrow> clock \<Rightarrow> PosterGame \<Rightarrow> PosterGame" where
  "confirmGiveUp U clk s =
     (let s1 = markCurrentMovieSeen U clk (s\<lparr> gameStatus := Lost, showGiveUpConfirm := False \<rparr>)
      in if isInfiniteTab (activeTab s1)
         then let mode = (if activeTab s1 = InfiniteHard then InfiniteHard else Infinite)
              in saveStreakData clk mode (s1\<lparr> currentStreak := Num 0 \<rparr>)
         else let tab = activeTab s1
              in if tab = Daily \<or> tab = Hard then markDailyLoss clk tab s1 else s1)"

definition nextStep :: "runtime \<Rightarrow> clock \<Rightarrow> (nat \<Rightarrow> real) \<Rightarrow> PosterGame \<Rightarrow> PosterGame" where
  "nextStep U clk rnd s =
     (if currentStepIndex s < length progressionSteps - 1
      then let s1 = s\<lparr> currentStepIndex := currentStepIndex s + 1 \<rparr>
           in if (activeTab s1 = Hard \<or> activeTab s1 = InfiniteHard) \<and> gameStatus s1 = Playing
              then generateStripEffects rnd s1 else s1
      else let s1 = markCurrentMovieSeen U clk (s\<lparr> gameStatus := Lost \<rparr>)
           in if isInfiniteTab (activeTab s1)
              then let mode = (if activeTab s1 = InfiniteHard then InfiniteHard else Infinite)
                   in saveStreakData clk mode (s1\<lparr> currentStreak := Num 0 \<rparr>)
              else let tab = activeTab s1
                   in if tab = Daily \<or> tab = Hard then markDailyLoss clk tab s1 else s1)"

definition validateGuess :: "runtime \<Rightarrow> clock \<Rightarrow> (nat \<Rightarrow> real) \<Rightarrow> PosterGame \<Rightarrow> PosterGame" where
  "validateGuess U clk rnd s =
     (if gameStatus s \<noteq> Playing then s
      else let rawGuess = userGuess s;
               selectedMovie = selectedMovieFromAutocomplete s;
               targetMovie = movie s
           in if trim rawGuess = []
              then nextStep U clk rnd
                     (s\<lparr> wrongGuesses := wrongGuesses s @ [\<lparr> guess = js ''SKIPPED'', year = None \<rparr>] \<rparr>)
              else let s' =
                     (if isCorrect U rawGuess selectedMovie targetMovie
                      then let s1 = markCurrentMovieSeen U clk (s\<lparr> gameStatus := Won \<rparr>)
                           in if isInfiniteTab (activeTab s1)
                              then let mode = (if activeTab s1 = InfiniteHard then InfiniteHard
                                               else Infinite);
                                       s2 = s1\<lparr> currentStreak := numSucc (currentStreak s1) \<rparr>;
                                       newStreak = currentStreak s2;
                                       s3 = (if numGreater newStreak (todayBestStreak s2)
                                             then s2\<lparr> todayBestStreak := newStreak \<rparr> else s2);
                                       s4 = (if numGreater newStreak (allTimeBestStreak s3)
                                             then s3\<lparr> allTimeBestStreak := newStreak \<rparr> else s3)
                                   in saveStreakData clk mode s4
                              else let tab = activeTab s1
                                   in if tab = Daily \<or> tab = Hard then markDailyWin clk tab s1 else s1
                      else let (guessTitle, guessYear) = extractGuess rawGuess;
                               selectedYear = yearOf selectedMovie;
                               y = (if selectedYear \<noteq> [] then selectedYear else guessYear);
                               guessLabel = (if trim guessTitle \<noteq> [] then guessTitle else rawGuess)
                           in nextStep U clk rnd
                                (s\<lparr> wrongGuesses :=
                                      wrongGuesses s @ [\<lparr> guess = guessLabel, year = Some y \<rparr>] \<rparr>))
                   in s'\<lparr> userGuess := [], selectedMovieFromAutocomplete := None \<rparr>)"

subsection \<open>Clearing the store, reloading the page\<close>

definition requestClearCache :: "PosterGame \<Rightarrow> PosterGame" where
  "requestClearCache s = s\<lparr> showClearCacheConfirm := True \<rparr>"

definition cancelClearCache :: "PosterGame \<Rightarrow> PosterGame" where
  "cancelClearCache s = s\<lparr> showClearCacheConfirm := False \<rparr>"

text \<open>
  \<open>window.location.reload()\<close>: the component is constructed again over the store and
  \<open>ngOnInit\<close> runs. \<open>clearCache\<close> empties the store first.
\<close>

definition reload :: "clock \<Rightarrow> storage \<Rightarrow> PosterGame" where
  "reload clk ls = ngOnInit clk (newComponent ls)"

definition clearCache :: "clock \<Rightarrow> PosterGame \<Rightarrow> PosterGame" where
  "clearCache clk s = reload clk Map.empty"

subsection \<open>Events\<close>

text \<open>
  Every public operation of the component, the writes of the template into the input
  signals, a reload of the page, and the arrival of every asynchronous response. A daily
  response names the request it answers: the operation that issued it, the tab, the media
  kind, the time of the request, and the catalog that answers. A response is accepted in
  every state, also when no request is pending: the runs of the model include every
  interleaving of the browser's.
\<close>

datatype event =
    SetMediaMode MediaMode
  | ToggleSettings
  | ToggleInfiniteMemory
  | SetInfiniteCountryFilter jsstring
  | SetApiKeyInput jsstring
  | SubmitApiKey
  | TokenValidated jsstring bool
  | RequestTabSwitch Tab
  | ConfirmLeaveTab
  | CancelLeaveTab
  | OnInput jsstring
  | SearchNext "Movie list"
  | SelectSuggestion Movie
  | GiveUp
  | ConfirmGiveUp
  | CancelGiveUp
  | ValidateGuess
  | NextStep
  | LoadNextInfiniteMovie
  | RequestClearCache
  | CancelClearCache
  | ClearCache
  | Reload
  | DailyResponse bool Tab bool clock catalog
  | InfiniteNext Movie
  | InfiniteError
  | ImdbNext "jsstring option"
  | ImdbError

text \<open>
  The daily request of \<open>switchTab\<close> and \<open>loadForCurrentTab\<close>, answered: the service runs on
  the store, and the subscriber's \<open>next\<close> runs on the title it emits (its \<open>error\<close> only logs).
\<close>

definition dailyResponse ::
  "(real \<Rightarrow> real) \<Rightarrow> (nat \<Rightarrow> real) \<Rightarrow> bool \<Rightarrow> Tab \<Rightarrow> bool \<Rightarrow> clock \<Rightarrow> catalog
     \<Rightarrow> PosterGame \<Rightarrow> PosterGame" where
  "dailyResponse msin rnd fromSwitch tab isTv requested cat s =
     (let ls = localStorage s;
          movieObservable =
            (if tab = Daily
             then (if isTv then getDailyTvShow msin cat requested ls
                   else getDailyMovie msin cat requested ls)
             else (if isTv then getDailyTvShowHard msin cat requested ls
                   else getDailyMovieHard msin cat requested ls))
      in case movieObservable of
           Inl err \<Rightarrow> s
         | Inr (m, ls') \<Rightarrow>
             (if fromSwitch then switchTab_next rnd tab m (s\<lparr> localStorage := ls' \<rparr>)
              else loadForCurrentTab_next rnd tab m (s\<lparr> localStorage := ls' \<rparr>)))"

fun step ::
  "runtime \<Rightarrow> (real \<Rightarrow> real) \<Rightarrow> clock \<Rightarrow> (nat \<Rightarrow> real) \<Rightarrow> event \<Rightarrow> PosterGame \<Rightarrow> PosterGame" where
  "step U msin clk rnd (SetMediaMode m) s = setMediaMode clk m s"
| "step U msin clk rnd ToggleSettings s = toggleSettings s"
| "step U msin clk rnd ToggleInfiniteMemory s = toggleInfiniteMemory s"
| "step U msin clk rnd (SetInfiniteCountryFilter v) s = setInfiniteCountryFilter v s"
| "step U msin clk rnd (SetApiKeyInput v) s = s\<lparr> apiKeyInput := v \<rparr>"
| "step U msin clk rnd SubmitApiKey s = submitApiKey s"
| "step U msin clk rnd (TokenValidated token ok) s = submitApiKey_next clk token ok s"
| "step U msin clk rnd (RequestTabSwitch tab) s = requestTabSwitch clk tab s"
| "step U msin clk rnd ConfirmLeaveTab s = confirmLeaveTab clk s"
| "step U msin clk rnd CancelLeaveTab s = cancelLeaveTab s"
| "step U msin clk rnd (OnInput term) s = onInput term s"
| "step U msin clk rnd (SearchNext movies) s = searchTerms_next movies s"
| "step U msin clk rnd (SelectSuggestion m) s = selectSuggestion m s"
| "step U msin clk rnd GiveUp s = giveUp s"
| "step U msin clk rnd ConfirmGiveUp s = confirmGiveUp U clk s"
| "step U msin clk rnd CancelGiveUp s = cancelGiveUp s"
| "step U msin clk rnd ValidateGuess s = validateGuess U clk rnd s"
| "step U msin clk rnd NextStep s = nextStep U clk rnd s"
| "step U msin clk rnd LoadNextInfiniteMovie s = loadNextInfiniteMovie s"
| "step U msin clk rnd RequestClearCache s = requestClearCache s"
| "step U msin clk rnd CancelClearCache s = cancelClearCache s"
| "step U msin clk rnd ClearCache s = clearCache clk s"
| "step U msin clk rnd Reload s = reload clk (localStorage s)"
| "step U msin clk rnd (DailyResponse fromSwitch tab isTv requested cat) s =
     dailyResponse msin rnd fromSwitch tab isTv requested cat s"
| "step U msin clk rnd (InfiniteNext m) s = loadInfiniteMovie_next rnd m s"
| "step U msin clk rnd InfiniteError s = loadInfiniteMovie_error s"
| "step U msin clk rnd (ImdbNext i) s = fetchImdbLink_next i s"
| "step U msin clk rnd ImdbError s = fetchImdbLink_error s"

text \<open>
  The states the session reaches from a first visit (an empty store), when every operation
  runs at a time accepted by \<open>P\<close>.
\<close>

inductive reachable :: "runtime \<Rightarrow> (real \<Rightarrow> real) \<Rightarrow> (clock \<Rightarrow> bool) \<Rightarrow> PosterGame \<Rightarrow> bool"
  for U :: runtime and msin :: "real \<Rightarrow> real" and P :: "clock \<Rightarrow> bool" where
  first_visit: "P clk \<Longrightarrow> reachable U msin P (reload clk Map.empty)"
| after_event: "reachable U msin P s \<Longrightarrow> P clk \<Longrightarrow> reachable U msin P (step U msin clk rnd e s)"

section \<open>Concrete inputs\<close>

text \<open>The target of the specification's example, and two consecutive days.\<close>

definition inception :: Movie where
  "inception =
     \<lparr> id' = 27205, title = js ''Inception'', poster_path = js ''/inception.jpg'', overview = [],
       release_date = Some (js ''2010-07-14''), original_language = Some (js ''en''),
       original_title = Some (js ''Inception''), original_name = None \<rparr>"

definition day1 :: clock where
  "day1 = \<lparr> getFullYear = 2026, getMonth = 10, getDate = 2, dateNow = 1793610000000 \<rparr>"


text \<open>
  A first visit on day 1: the access token is entered and accepted, the player opens the
  infinite tab, a puzzle arrives.
\<close>

definition infinitePlaying :: PosterGame where
  "infinitePlaying =
     loadInfiniteMovie_next (\<lambda>i. 0) inception
       (requestTabSwitch day1 Infinite
          (submitApiKey_next day1 (js ''token'') True
             (submitApiKey ((reload day1 Map.empty)\<lparr> apiKeyInput := js ''token'' \<rparr>))))"




text \<open>
  A first visit on day 1 that stays on the daily tab: the token is accepted and the daily
  puzzle arrives; the player solves it; or gives up first and the day is then marked won.
\<close>

definition dailyPlaying :: PosterGame where
  "dailyPlaying =
     loadForCurrentTab_next (\<lambda>i. 0) Daily inception
       (submitApiKey_next day1 (js ''token'') True
          (submitApiKey ((reload day1 Map.empty)\<lparr> apiKeyInput := js ''token'' \<rparr>)))"

definition dailyWon :: PosterGame where
  "dailyWon = validateGuess latin1Runtime day1 (\<lambda>i. 0) (onInput (js ''inception'') dailyPlaying)"

definition dailyLostThenWon :: PosterGame where
  "dailyLostThenWon = markDailyWin day1 Daily (confirmGiveUp latin1Runtime day1 dailyPlaying)"

text \<open>From \<open>infinitePlaying\<close>, four wrong attempts: the player is at the last step.\<close>

definition infiniteLastStep :: PosterGame where
  "infiniteLastStep =
     nextStep latin1Runtime day1 (\<lambda>i. 0)
       (nextStep latin1Runtime day1 (\<lambda>i. 0)
          (nextStep latin1Runtime day1 (\<lambda>i. 0)
             (nextStep latin1Runtime day1 (\<lambda>i. 0) infinitePlaying)))"


section \<open>Streaks\<close>


text \<open>Two counters are in order when both are integers and \<open>0 \<le> current \<le> best\<close>.\<close>

definition streakOrdered :: "jsnum \<Rightarrow> jsnum \<Rightarrow> bool" where
  "streakOrdered c t \<longleftrightarrow> (case (c, t) of (Num a, Num b) \<Rightarrow> 0 \<le> a \<and> a \<le> b | _ \<Rightarrow> False)"

text \<open>
  The keys of the current streak and of the best streak of the day, for the two infinite
  modes and the two media kinds; the invariant of the ledger on the day \<open>today\<close>: the
  counters of the session are in order, and so are the stored ones under every pair of keys.
\<close>

definition streakKeyPairs :: "(jsstring \<times> jsstring) list" where
  "streakKeyPairs =
     [(LS_CURRENT_STREAK, LS_TODAY_BEST_PREFIX),
      (LS_CURRENT_STREAK_TV, LS_TODAY_BEST_PREFIX_TV),
      (LS_CURRENT_STREAK_HARD, LS_TODAY_BEST_HARD_PREFIX),
      (LS_CURRENT_STREAK_HARD_TV, LS_TODAY_BEST_HARD_PREFIX_TV)]"

definition storedOrdered :: "jsstring \<Rightarrow> storage \<Rightarrow> jsstring \<times> jsstring \<Rightarrow> bool" where
  "storedOrdered today ls p =
     streakOrdered (parseInt (getItemOr ls (fst p) (js ''0'')))
                   (parseInt (getItemOr ls (snd p @ today) (js ''0'')))"

definition streakInvariant :: "jsstring \<Rightarrow> PosterGame \<Rightarrow> bool" where
  "streakInvariant today s \<longleftrightarrow>
     streakOrdered (currentStreak s) (todayBestStreak s)
     \<and> list_all (storedOrdered today (localStorage s)) streakKeyPairs"

text \<open>The keys of \<open>streakKeyPairs\<close>, as they are written on the day \<open>today\<close>.\<close>

definition isStreakKey :: "jsstring \<Rightarrow> jsstring \<Rightarrow> bool" where
  "isStreakKey today k \<longleftrightarrow> (\<exists>p \<in> set streakKeyPairs. k = fst p \<or> k = snd p @ today)"


section \<open>Properties of the title normalizer and the guess evaluator\<close>

subsection \<open>Idempotence\<close>

lemma isLowerAlnum_ascii: "isLowerAlnum c \<Longrightarrow> c < 128 \<and> asciiLower c = c"
  by (auto simp: isLowerAlnum_def asciiLower_def)

lemma alnum_not_space: "isLowerAlnum c \<Longrightarrow> \<not> isWhiteSpace c"
  by (auto simp: isLowerAlnum_def isWhiteSpace_def)

lemma conforming_alnum:
  assumes "asciiConforming U" and "\<forall>c \<in> set t. isLowerAlnum c"
  shows "toLowerCase U t = t" and "normalizeNFD U t = t"
proof -
  have a: "\<forall>c \<in> set t. c < 128" using assms(2) isLowerAlnum_ascii by blast
  have "map asciiLower t = t"
    using assms(2) isLowerAlnum_ascii by (simp add: map_idI)
  with assms(1) a show "toLowerCase U t = t" and "normalizeNFD U t = t"
    unfolding asciiConforming_def by auto
qed

lemma dropWhile_none: "\<forall>x \<in> set xs. \<not> P x \<Longrightarrow> dropWhile P xs = xs"
  by (cases xs) auto

lemma trim_no_space:
  assumes "\<forall>c \<in> set t. \<not> isWhiteSpace c"
  shows "trim t = t"
proof -
  have "dropWhile isWhiteSpace t = t" using assms by (rule dropWhile_none)
  moreover have "dropWhile isWhiteSpace (rev t) = rev t"
    using assms by (intro dropWhile_none) simp
  ultimately show ?thesis by (simp add: trim_def)
qed

lemma matchArticle_no_space:
  assumes "\<forall>c \<in> set t. \<not> isWhiteSpace c"
  shows "matchArticle as t = None"
proof (induction as)
  case Nil
  show ?case by simp
next
  case (Cons a as)
  have "drop (length a) t \<noteq> [] \<Longrightarrow> \<not> isWhiteSpace (hd (drop (length a) t))"
    using assms by (meson hd_in_set in_set_dropD)
  with Cons show ?case by (auto simp: Let_def)
qed

lemma stripLeadingArticles_alnum:
  assumes "asciiConforming U" and "\<forall>c \<in> set t. isLowerAlnum c"
  shows "stripLeadingArticles U t = t"
proof -
  have ns: "\<forall>c \<in> set t. \<not> isWhiteSpace c" using assms(2) alnum_not_space by blast
  have low: "toLowerCase U (trim t) = t"
    using assms ns by (simp add: trim_no_space conforming_alnum)
  have el: "(case t of l # q # rest \<Rightarrow> if l = 108 \<and> (q = 39 \<or> q = 96) then rest else t | _ \<Rightarrow> t) = t"
    using assms(2) by (auto simp: isLowerAlnum_def split: list.splits)
  show ?thesis
    unfolding stripLeadingArticles_def Let_def low el
    by (simp add: matchArticle_no_space[OF ns] trim_no_space[OF ns])
qed

lemma normalizeTitle_alnum: "\<forall>c \<in> set (normalizeTitle U s d). isLowerAlnum c"
  by (simp add: normalizeTitle_def Let_def)

lemma normalizeTitle_fixes_alnum:
  assumes "asciiConforming U" and al: "\<forall>c \<in> set t. isLowerAlnum c"
  shows "normalizeTitle U t d = t"
proof -
  have nc: "\<forall>c \<in> set t. \<not> isCombiningMark c"
    using al by (auto simp: isLowerAlnum_def isCombiningMark_def)
  have "filter isLowerAlnum (filter (\<lambda>c. \<not> isCombiningMark c) t) = t"
    using al nc by (simp add: filter_id_conv)
  then show ?thesis
    using assms by (simp add: normalizeTitle_def stripLeadingArticles_alnum conforming_alnum)
qed

text \<open>
  Claim C8. Title normalization is idempotent: for every string and both values of the
  \<open>dropArticles\<close> flag, normalizing a normalized title gives it back. The runtime's
  \<open>toLowerCase\<close> and NFD are arbitrary but for what they do on Basic Latin.
\<close>

theorem normalizeTitle_idempotent:
  "asciiConforming U \<Longrightarrow> normalizeTitle U (normalizeTitle U s d) d = normalizeTitle U s d"
  using normalizeTitle_alnum normalizeTitle_fixes_alnum by blast

text \<open>The concrete runtime conforms, and the theorem applies to it.\<close>

lemma decomposeLatin1_ascii: "c < 128 \<Longrightarrow> decomposeLatin1 c = [c]"
proof -
  assume c: "c < 128"
  have "c \<notin> fst ` set upperDecompositions"
    using c by (auto simp: upperDecompositions_def)
  then have "map_of upperDecompositions c = None" by (simp add: map_of_eq_None_iff)
  with c show ?thesis by (simp add: decomposeLatin1_def)
qed

lemma latin1Runtime_conforming: "asciiConforming latin1Runtime"
proof -
  have "map lowerLatin1 s = map asciiLower s \<and> concat (map decomposeLatin1 s) = s"
    if "\<forall>c \<in> set s. c < 128" for s
    using that by (induction s) (auto simp: lowerLatin1_def asciiLower_def decomposeLatin1_ascii)
  then show ?thesis by (simp add: asciiConforming_def latin1Runtime_def)
qed

theorem normalizeTitle_idempotent_witness:
  "asciiConforming latin1Runtime \<and>
   normalizeTitle latin1Runtime (normalizeTitle latin1Runtime (js ''Les Intouchables'') True) True
     = js ''intouchables''"
proof -
  have n: "normalizeTitle latin1Runtime (js ''Les Intouchables'') True = js ''intouchables''"
    by code_simp
  show ?thesis
    using normalizeTitle_idempotent [OF latin1Runtime_conforming, of "js ''Les Intouchables''" True]
    by (simp add: n latin1Runtime_conforming)
qed

subsection \<open>The literal \<open>win\<close>\<close>

text \<open>
  Claim C4 as stated fails: the free-text guess \<open>win 1999\<close> has the normalized fragment
  \<open>win\<close>, and against a target of 2010 it is classified incorrect.
\<close>

theorem win_literal_needs_year_counterexample:
  "normalizeTitle latin1Runtime (fst (extractGuess (js ''win 1999''))) False = js ''win''
   \<and> \<not> isCorrect latin1Runtime (js ''win 1999'') None (Some inception)"
  by code_simp

text \<open>
  Claim C4, amended. A free-text guess (no autocomplete selection) whose normalized title
  fragment is \<open>win\<close> is classified correct, for every target, exactly when the year
  extracted from the guess is compatible with the target's year: one of them is missing, or
  they are equal.
\<close>

theorem win_literal_correct:
  assumes "normalizeTitle U (fst (extractGuess raw)) False = js ''win''"
  shows "isCorrect U raw None target \<longleftrightarrow>
           (snd (extractGuess raw) = [] \<or> yearOf target = [] \<or> snd (extractGuess raw) = yearOf target)"
  using assms by (cases "extractGuess raw") (simp add: isCorrect_def Let_def)

theorem win_literal_correct_witness:
  "normalizeTitle latin1Runtime (fst (extractGuess (js ''(win) 2010''))) False = js ''win''
   \<and> isCorrect latin1Runtime (js ''(win) 2010'') None (Some inception)
   \<and> snd (extractGuess (js ''(win) 2010'')) = yearOf (Some inception)"
proof -
  have h: "normalizeTitle latin1Runtime (fst (extractGuess (js ''(win) 2010''))) False = js ''win''"
    by code_simp
  have y: "snd (extractGuess (js ''(win) 2010'')) = yearOf (Some inception)"
    by code_simp
  from win_literal_correct [OF h, of "Some inception"] h y show ?thesis by simp
qed

subsection \<open>The example of the specification\<close>

lemma set_trim: "set (trim s) \<subseteq> set s"
proof -
  have "set (dropWhile isWhiteSpace (rev (dropWhile isWhiteSpace s))) \<subseteq> set (rev (dropWhile isWhiteSpace s))"
    by (rule set_dropWhileD [THEN subsetI])
  also have "\<dots> \<subseteq> set s" using set_dropWhileD by fastforce
  finally show ?thesis by (simp add: trim_def)
qed

lemma set_matchArticle: "matchArticle as s = Some r \<Longrightarrow> set r \<subseteq> set s"
proof (induction as)
  case Nil
  then show ?case by simp
next
  case (Cons a as)
  have "set (dropWhile isWhiteSpace (drop (length a) s)) \<subseteq> set s"
    by (meson in_set_dropD set_dropWhileD subsetI)
  with Cons show ?case by (auto simp: Let_def split: if_splits)
qed

lemma set_stripLeadingArticles:
  "set (stripLeadingArticles U s) \<subseteq> set (toLowerCase U (trim s))"
proof -
  define t where "t = toLowerCase U (trim s)"
  define w where "w = (case t of l # q # rest \<Rightarrow> if l = 108 \<and> (q = 39 \<or> q = 96) then rest else t | _ \<Rightarrow> t)"
  have w: "set w \<subseteq> set t" by (auto simp: w_def split: list.splits)
  have "set (case matchArticle articles w of None \<Rightarrow> w | Some rest \<Rightarrow> rest) \<subseteq> set w"
    using set_matchArticle by (auto split: option.splits)
  with w set_trim have "set (trim (case matchArticle articles w of None \<Rightarrow> w | Some rest \<Rightarrow> rest)) \<subseteq> set t"
    by blast
  then show ?thesis unfolding stripLeadingArticles_def Let_def w_def t_def .
qed

lemma asciiLower_ascii: "c < 128 \<Longrightarrow> asciiLower c < 128"
  by (simp add: asciiLower_def)

lemma normalizeTitle_conforming:
  assumes U: "asciiConforming U" and V: "asciiConforming V" and s: "\<forall>c \<in> set s. c < 128"
  shows "normalizeTitle U s d = normalizeTitle V s d"
proof -
  have low: "toLowerCase U x = map asciiLower x \<and> toLowerCase V x = map asciiLower x
             \<and> normalizeNFD U x = x \<and> normalizeNFD V x = x" if "\<forall>c \<in> set x. c < 128" for x
    using U V that unfolding asciiConforming_def by blast
  have t: "\<forall>c \<in> set (trim s). c < 128" using s set_trim by blast
  have strip: "stripLeadingArticles U s = stripLeadingArticles V s"
    using low [OF t] by (simp add: stripLeadingArticles_def)
  have "\<forall>c \<in> set (toLowerCase V (trim s)). c < 128"
    using low [OF t] t by (auto simp: asciiLower_ascii)
  then have sb: "\<forall>c \<in> set (stripLeadingArticles V s). c < 128"
    using set_stripLeadingArticles by blast
  define b where "b = (if d then stripLeadingArticles V s else s)"
  have b: "\<forall>c \<in> set b. c < 128" using s sb by (simp add: b_def)
  then have lb: "\<forall>c \<in> set (map asciiLower b). c < 128" by (auto simp: asciiLower_ascii)
  have "normalizeNFD U (toLowerCase U b) = normalizeNFD V (toLowerCase V b)"
    using low [OF b] low [OF lb] by simp
  then show ?thesis unfolding b_def by (cases d) (simp_all add: normalizeTitle_def strip)
qed

text \<open>
  Claim C6. With a target whose title and original title are \<open>Inception\<close> and whose
  release date is 2010-07-14, and no autocomplete selection, the raw guess
  \<open>inception 2010\<close> is classified correct and the raw guess \<open>Inception 2011\<close> incorrect.
\<close>

theorem inception_example:
  assumes "asciiConforming U"
    and "title target = js ''Inception''"
    and "original_title target = Some (js ''Inception'')"
    and "release_date target = Some (js ''2010-07-14'')"
  shows "isCorrect U (js ''inception 2010'') None (Some target)
         \<and> \<not> isCorrect U (js ''Inception 2011'') None (Some target)"
proof -
  have e1: "extractGuess (js ''inception 2010'') = (js ''inception'', js ''2010'')" by code_simp
  have e2: "extractGuess (js ''Inception 2011'') = (js ''Inception'', js ''2011'')" by code_simp
  have "substring 0 4 (js ''2010-07-14'') = js ''2010''" by code_simp
  then have y: "yearOf (Some target) = js ''2010''" by (simp add: yearOf_def assms(4))
  have a1: "\<forall>c \<in> set (js ''inception''). c < 128" by code_simp
  have a2: "\<forall>c \<in> set (js ''Inception''). c < 128" by code_simp
  note n = normalizeTitle_conforming [OF assms(1) latin1Runtime_conforming]
  have g: "normalizeTitle U (js ''inception'') False = js ''inception''"
    unfolding n [OF a1] by code_simp
  have t: "normalizeTitle U (js ''Inception'') False = js ''inception''"
    unfolding n [OF a2] by code_simp
  have "isCorrect U (js ''inception 2010'') None (Some target)"
    by (simp add: isCorrect_def Let_def e1 y g t assms(2))
  moreover have "js ''2011'' \<noteq> [] \<and> js ''2010'' \<noteq> [] \<and> js ''2011'' \<noteq> js ''2010''"
    by code_simp
  then have "\<not> isCorrect U (js ''Inception 2011'') None (Some target)"
    by (simp add: isCorrect_def Let_def e2 y)
  ultimately show ?thesis by simp
qed

theorem inception_example_witness:
  "asciiConforming latin1Runtime
   \<and> title inception = js ''Inception''
   \<and> original_title inception = Some (js ''Inception'')
   \<and> release_date inception = Some (js ''2010-07-14'')
   \<and> isCorrect latin1Runtime (js ''inception 2010'') None (Some inception)
   \<and> \<not> isCorrect latin1Runtime (js ''Inception 2011'') None (Some inception)"
proof -
  have f: "title inception = js ''Inception''"
    "original_title inception = Some (js ''Inception'')"
    "release_date inception = Some (js ''2010-07-14'')"
    by (simp_all add: inception_def)
  from inception_example [OF latin1Runtime_conforming f] latin1Runtime_conforming f
  show ?thesis by simp
qed

section \<open>Properties of the strip effect generator\<close>

lemma stripEffectsLoop_eq:
  "stripEffectsLoop i count rnd effects = effects @ map (\<lambda>k. effectFor (rnd k)) [i..<count]"
proof (induction i count rnd effects rule: stripEffectsLoop.induct)
  case (1 i count rnd effects)
  show ?case
  proof (cases "i < count")
    case True
    with 1 show ?thesis
      by (subst stripEffectsLoop.simps) (simp add: upt_conv_Cons)
  next
    case False
    then show ?thesis by (subst stripEffectsLoop.simps) simp
  qed
qed

lemma effectFor_buckets:
  "(effectFor r = NoEffect \<longleftrightarrow> r < 0.4)
   \<and> (effectFor r = Rotate180 \<longleftrightarrow> 0.4 \<le> r \<and> r < 0.6)
   \<and> (effectFor r = Grayscale \<longleftrightarrow> 0.6 \<le> r \<and> r < 0.8)
   \<and> (effectFor r = Blackout \<longleftrightarrow> 0.8 \<le> r)"
  by (simp add: effectFor_def)

text \<open>
  Claim C1 as stated fails: with four buckets of 25% each the draw 0.3125 would give the
  flip effect (\<open>rotate180\<close>); the generator gives no effect, on every strip.
\<close>

theorem strip_effects_equal_buckets_counterexample:
  "effectFor 0.3125 = NoEffect
   \<and> set (stripEffects (generateStripEffects (\<lambda>i. 0.3125) (newComponent Map.empty))) = {NoEffect}"
  by (simp add: effectFor_def generateStripEffects_def currentStripCount_def newComponent_def
      progressionSteps_def stripEffectsLoop_eq image_constant_conv)

text \<open>
  Claim C1, amended. For every strip count, the generator gives one effect per strip, the
  effect of strip \<open>i\<close> depending on the draw \<open>i\<close> alone, and maps a draw into four buckets in the
  order none, flip, desaturate, obscure with the boundaries 0.4, 0.6 and 0.8: the widths are
  0.4, 0.2, 0.2 and 0.2.
\<close>

theorem strip_effect_buckets:
  assumes "currentStripCount s = Some count"
  shows "length (stripEffects (generateStripEffects rnd s)) = count
         \<and> (\<forall>i < count. stripEffects (generateStripEffects rnd s) ! i = effectFor (rnd i))
         \<and> (\<forall>r. (effectFor r = NoEffect \<longleftrightarrow> r < 0.4)
                \<and> (effectFor r = Rotate180 \<longleftrightarrow> 0.4 \<le> r \<and> r < 0.6)
                \<and> (effectFor r = Grayscale \<longleftrightarrow> 0.6 \<le> r \<and> r < 0.8)
                \<and> (effectFor r = Blackout \<longleftrightarrow> 0.8 \<le> r))"
  using assms effectFor_buckets by (simp add: generateStripEffects_def stripEffectsLoop_eq)

theorem strip_effect_buckets_witness:
  "currentStripCount ((newComponent Map.empty)\<lparr> currentStepIndex := 4 \<rparr>) = Some 10
   \<and> length (stripEffects (generateStripEffects (\<lambda>i. real i / 10)
        ((newComponent Map.empty)\<lparr> currentStepIndex := 4 \<rparr>))) = 10
   \<and> stripEffects (generateStripEffects (\<lambda>i. real i / 10)
        ((newComponent Map.empty)\<lparr> currentStepIndex := 4 \<rparr>)) ! 5 = Rotate180"
proof -
  have h: "currentStripCount ((newComponent Map.empty)\<lparr> currentStepIndex := 4 \<rparr>) = Some 10"
    by (simp add: currentStripCount_def progressionSteps_def)
  have e: "effectFor (real 5 / 10) = Rotate180" by (simp add: effectFor_def)
  from strip_effect_buckets [OF h, of "\<lambda>i. real i / 10"] h e show ?thesis by simp
qed

section \<open>Properties of the deterministic picker\<close>










section \<open>What the operations leave unchanged\<close>

lemma gameStatus_saveStreakData [simp]: "gameStatus (saveStreakData clk mode s) = gameStatus s"
  by (simp add: saveStreakData_def Let_def split: prod.splits)

lemma gameStatus_markDailyLoss [simp]: "gameStatus (markDailyLoss clk tab s) = gameStatus s"
  by (simp add: markDailyLoss_def Let_def)

lemma gameStatus_markCurrentMovieSeen [simp]:
  "gameStatus (markCurrentMovieSeen U clk s) = gameStatus s"
  by (simp add: markCurrentMovieSeen_def addSeenRandomMovie_def Let_def split: option.splits)

lemma activeTab_markCurrentMovieSeen [simp]:
  "activeTab (markCurrentMovieSeen U clk s) = activeTab s"
  by (simp add: markCurrentMovieSeen_def addSeenRandomMovie_def Let_def split: option.splits)

lemma markCurrentMovieSeen_daily:
  "\<not> isInfiniteTab (activeTab s) \<Longrightarrow> markCurrentMovieSeen U clk s = s"
  by (simp add: markCurrentMovieSeen_def split: option.splits)

lemma win_loss_keys_differ:
  "getDailyStoragePrefix tab True s @ today \<noteq> getDailyStoragePrefix tab False s @ today"
  by (simp add: getDailyStoragePrefix_def js_def)

lemma getDailyStoragePrefix_cong:
  "mediaMode s' = mediaMode s \<Longrightarrow> getDailyStoragePrefix tab w s' = getDailyStoragePrefix tab w s"
  by (simp add: getDailyStoragePrefix_def)

lemma localStorage_loadStreakData [simp]:
  "localStorage (loadStreakData clk mode s) = localStorage s"
  by (simp add: loadStreakData_def Let_def split: prod.splits)

lemma localStorage_loadInfiniteMovie [simp]: "localStorage (loadInfiniteMovie s) = localStorage s"
  by (simp add: loadInfiniteMovie_def)

lemma localStorage_syncDailyOutcome [simp]:
  "localStorage (syncDailyOutcome clk tab s) = localStorage s"
  by (simp add: syncDailyOutcome_def Let_def)

lemma localStorage_switchTab [simp]: "localStorage (switchTab clk tab force s) = localStorage s"
  by (simp add: switchTab_def Let_def)



lemma getStreakStorageKeys_cong:
  "mediaMode s' = mediaMode s \<Longrightarrow> getStreakStorageKeys mode s' = getStreakStorageKeys mode s"
  by (simp add: getStreakStorageKeys_def)



lemma saveStreakData_frame [simp]:
  "pendingTab (saveStreakData clk mode s) = pendingTab s"
  "pendingMediaMode (saveStreakData clk mode s) = pendingMediaMode s"
  "activeTab (saveStreakData clk mode s) = activeTab s"
  "mediaMode (saveStreakData clk mode s) = mediaMode s"
  by (simp_all add: saveStreakData_def Let_def split: prod.splits)

lemma markCurrentMovieSeen_frame [simp]:
  "currentStreak (markCurrentMovieSeen U clk s) = currentStreak s"
  "todayBestStreak (markCurrentMovieSeen U clk s) = todayBestStreak s"
  "allTimeBestStreak (markCurrentMovieSeen U clk s) = allTimeBestStreak s"
  "activeTab (markCurrentMovieSeen U clk s) = activeTab s"
  by (simp_all add: markCurrentMovieSeen_def addSeenRandomMovie_def Let_def split: option.splits)

lemma saveStreakData_counters [simp]:
  "currentStreak (saveStreakData clk mode s) = currentStreak s"
  "todayBestStreak (saveStreakData clk mode s) = todayBestStreak s"
  "allTimeBestStreak (saveStreakData clk mode s) = allTimeBestStreak s"
  by (simp_all add: saveStreakData_def Let_def split: prod.splits)

lemma generateStripEffects_frame [simp]:
  "gameStatus (generateStripEffects rnd s) = gameStatus s"
  "userGuess (generateStripEffects rnd s) = userGuess s"
  "movie (generateStripEffects rnd s) = movie s"
  "selectedMovieFromAutocomplete (generateStripEffects rnd s) = selectedMovieFromAutocomplete s"
  "activeTab (generateStripEffects rnd s) = activeTab s"
  "currentStreak (generateStripEffects rnd s) = currentStreak s"
  by (simp_all add: generateStripEffects_def split: option.splits)

section \<open>Properties of the daily outcome record\<close>

text \<open>
  Claim C5. Marking the day won writes the win flag and removes the loss flag of the same
  (tab, media kind, day); \<open>syncDailyOutcome\<close> on any state that has the same store and
  media kind, on the same day, then gives the status won, the completed mark and the same
  completion date string.
\<close>

theorem daily_win_roundtrip:
  assumes "mediaMode s' = mediaMode s"
    and "localStorage s' = localStorage (markDailyWin clk tab s)"
    and "getTodayKey clk' = getTodayKey clk"
  shows "localStorage (markDailyWin clk tab s) (getDailyStoragePrefix tab True s @ getTodayKey clk)
           = Some (js ''true'')
         \<and> localStorage (markDailyWin clk tab s) (getDailyStoragePrefix tab False s @ getTodayKey clk)
           = None
         \<and> gameStatus (syncDailyOutcome clk' tab s') = Won
         \<and> dailyCompleted (syncDailyOutcome clk' tab s')
         \<and> dailyCompletedDate (syncDailyOutcome clk' tab s')
           = dailyCompletedDate (markDailyWin clk tab s)"
proof -
  let ?w = "getDailyStoragePrefix tab True s @ getTodayKey clk"
  let ?l = "getDailyStoragePrefix tab False s @ getTodayKey clk"
  have ne: "?w \<noteq> ?l" by (rule win_loss_keys_differ)
  have w: "localStorage (markDailyWin clk tab s) ?w = Some (js ''true'')"
    using ne by (simp add: markDailyWin_def Let_def)
  have l: "localStorage (markDailyWin clk tab s) ?l = None"
    by (simp add: markDailyWin_def Let_def)
  have k: "getDailyStoragePrefix tab True s' = getDailyStoragePrefix tab True s"
    using assms(1) by (rule getDailyStoragePrefix_cong)
  have "localStorage s' (getDailyStoragePrefix tab True s' @ getTodayKey clk') = Some (js ''true'')"
    using w assms(2,3) k by simp
  then have "gameStatus (syncDailyOutcome clk' tab s') = Won
         \<and> dailyCompleted (syncDailyOutcome clk' tab s')
         \<and> dailyCompletedDate (syncDailyOutcome clk' tab s') = formatDateForDisplay (getTodayKey clk')"
    by (simp add: syncDailyOutcome_def Let_def)
  moreover have "dailyCompletedDate (markDailyWin clk tab s) = formatDateForDisplay (getTodayKey clk)"
    by (simp add: markDailyWin_def Let_def)
  ultimately show ?thesis using w l assms(3) by simp
qed

theorem daily_win_roundtrip_witness:
  "mediaMode (newComponent (localStorage dailyLostThenWon))
     = mediaMode (confirmGiveUp latin1Runtime day1 dailyPlaying)
   \<and> localStorage (confirmGiveUp latin1Runtime day1 dailyPlaying)
        (getDailyStoragePrefix Daily False dailyPlaying @ getTodayKey day1) = Some (js ''true'')
   \<and> localStorage dailyLostThenWon
        (getDailyStoragePrefix Daily False dailyPlaying @ getTodayKey day1) = None
   \<and> gameStatus (syncDailyOutcome day1 Daily (newComponent (localStorage dailyLostThenWon))) = Won
   \<and> dailyCompletedDate (syncDailyOutcome day1 Daily (newComponent (localStorage dailyLostThenWon)))
       = js ''02/11/26''"
proof -
  let ?s = "confirmGiveUp latin1Runtime day1 dailyPlaying"
  let ?s' = "newComponent (localStorage dailyLostThenWon)"
  have m: "mediaMode ?s' = mediaMode ?s" by code_simp
  have ls: "localStorage ?s' = localStorage (markDailyWin day1 Daily ?s)"
    by (simp add: newComponent_def dailyLostThenWon_def)
  have k: "getDailyStoragePrefix Daily False ?s = getDailyStoragePrefix Daily False dailyPlaying"
    by code_simp
  have before: "localStorage ?s (getDailyStoragePrefix Daily False dailyPlaying @ getTodayKey day1)
      = Some (js ''true'')" by code_simp
  have date: "dailyCompletedDate (markDailyWin day1 Daily ?s) = js ''02/11/26''" by code_simp
  from daily_win_roundtrip [OF m ls refl] m before date k show ?thesis
    by (simp add: dailyLostThenWon_def)
qed

text \<open>
  Claim C9. \<open>confirmGiveUp\<close> has no precondition on the status: from every state it sets
  the status to lost, and on the daily tabs it writes the day's loss flag and removes the
  day's win flag.
\<close>

theorem give_up_unconditional:
  "gameStatus (confirmGiveUp U clk s) = Lost
   \<and> (activeTab s = Daily \<or> activeTab s = Hard \<longrightarrow>
        localStorage (confirmGiveUp U clk s)
           (getDailyStoragePrefix (activeTab s) False s @ getTodayKey clk) = Some (js ''true'')
        \<and> localStorage (confirmGiveUp U clk s)
           (getDailyStoragePrefix (activeTab s) True s @ getTodayKey clk) = None)"
proof (intro conjI impI)
  show "gameStatus (confirmGiveUp U clk s) = Lost"
    by (simp add: confirmGiveUp_def Let_def)
next
  assume d: "activeTab s = Daily \<or> activeTab s = Hard"
  let ?s0 = "s\<lparr> gameStatus := Lost, showGiveUpConfirm := False \<rparr>"
  from d have ni: "\<not> isInfiniteTab (activeTab ?s0)" by (auto simp: isInfiniteTab_def)
  have c: "confirmGiveUp U clk s = markDailyLoss clk (activeTab s) ?s0"
    using d ni by (simp add: confirmGiveUp_def Let_def markCurrentMovieSeen_daily)
  have p: "getDailyStoragePrefix tab w ?s0 = getDailyStoragePrefix tab w s" for tab w
    by (simp add: getDailyStoragePrefix_def)
  show "localStorage (confirmGiveUp U clk s)
           (getDailyStoragePrefix (activeTab s) False s @ getTodayKey clk) = Some (js ''true'')"
    using win_loss_keys_differ [of "activeTab s" s "getTodayKey clk"]
    by (simp add: c markDailyLoss_def Let_def p)
  show "localStorage (confirmGiveUp U clk s)
           (getDailyStoragePrefix (activeTab s) True s @ getTodayKey clk) = None"
    by (simp add: c markDailyLoss_def Let_def p)
qed

theorem give_up_unconditional_witness:
  "gameStatus dailyWon = Won \<and> activeTab dailyWon = Daily
   \<and> localStorage dailyWon (getDailyStoragePrefix Daily True dailyWon @ getTodayKey day1)
       = Some (js ''true'')
   \<and> gameStatus (confirmGiveUp latin1Runtime day1 dailyWon) = Lost
   \<and> localStorage (confirmGiveUp latin1Runtime day1 dailyWon)
        (getDailyStoragePrefix Daily False dailyWon @ getTodayKey day1) = Some (js ''true'')
   \<and> localStorage (confirmGiveUp latin1Runtime day1 dailyWon)
        (getDailyStoragePrefix Daily True dailyWon @ getTodayKey day1) = None"
proof -
  have a: "gameStatus dailyWon = Won \<and> activeTab dailyWon = Daily" by code_simp
  have b: "localStorage dailyWon (getDailyStoragePrefix Daily True dailyWon @ getTodayKey day1)
       = Some (js ''true'')" by code_simp
  from give_up_unconditional [of latin1Runtime day1 dailyWon] a b show ?thesis by simp
qed

section \<open>Switching tab or media kind\<close>





section \<open>The concrete sessions are reachable\<close>

lemma reachable_infinitePlaying:
  assumes "P day1"
  shows "reachable latin1Runtime msin P infinitePlaying"
proof -
  note ev = after_event [where U = latin1Runtime and msin = msin and P = P and clk = day1
      and rnd = "\<lambda>i. 0", OF _ assms]
  have "reachable latin1Runtime msin P (reload day1 Map.empty)"
    using assms by (rule first_visit)
  from ev [OF this, where e = "SetApiKeyInput (js ''token'')"]
  have "reachable latin1Runtime msin P ((reload day1 Map.empty)\<lparr> apiKeyInput := js ''token'' \<rparr>)"
    by simp
  from ev [OF this, where e = SubmitApiKey]
  have "reachable latin1Runtime msin P
      (submitApiKey ((reload day1 Map.empty)\<lparr> apiKeyInput := js ''token'' \<rparr>))"
    by simp
  from ev [OF this, where e = "TokenValidated (js ''token'') True"]
  have "reachable latin1Runtime msin P
      (submitApiKey_next day1 (js ''token'') True
         (submitApiKey ((reload day1 Map.empty)\<lparr> apiKeyInput := js ''token'' \<rparr>)))"
    by simp
  from ev [OF this, where e = "RequestTabSwitch Infinite"]
  have "reachable latin1Runtime msin P
      (requestTabSwitch day1 Infinite
         (submitApiKey_next day1 (js ''token'') True
            (submitApiKey ((reload day1 Map.empty)\<lparr> apiKeyInput := js ''token'' \<rparr>))))"
    by simp
  from ev [OF this, where e = "InfiniteNext inception"]
  show ?thesis by (simp add: infinitePlaying_def)
qed


lemma reachable_infiniteLastStep:
  assumes "P day1"
  shows "reachable latin1Runtime msin P infiniteLastStep"
proof -
  note ev = after_event [where U = latin1Runtime and msin = msin and P = P and clk = day1
      and rnd = "\<lambda>i. 0" and e = NextStep, OF _ assms]
  have "reachable latin1Runtime msin P infinitePlaying"
    using assms by (rule reachable_infinitePlaying)
  from ev [OF ev [OF ev [OF ev [OF this]]]]
  show ?thesis by (simp add: infiniteLastStep_def)
qed


section \<open>The step index\<close>

named_theorems idx "the step index through the operations"

lemma idx_loadStreakData [idx]: "currentStepIndex (loadStreakData clk mode s) = currentStepIndex s"
  by (simp add: loadStreakData_def Let_def split: prod.splits)

lemma idx_saveStreakData [idx]: "currentStepIndex (saveStreakData clk mode s) = currentStepIndex s"
  by (simp add: saveStreakData_def Let_def split: prod.splits)

lemma idx_markDailyWin [idx]: "currentStepIndex (markDailyWin clk tab s) = currentStepIndex s"
  by (simp add: markDailyWin_def Let_def)

lemma idx_markDailyLoss [idx]: "currentStepIndex (markDailyLoss clk tab s) = currentStepIndex s"
  by (simp add: markDailyLoss_def Let_def)

lemma idx_syncDailyOutcome [idx]: "currentStepIndex (syncDailyOutcome clk tab s) = currentStepIndex s"
  by (simp add: syncDailyOutcome_def Let_def)

lemma idx_generateStripEffects [idx]:
  "currentStepIndex (generateStripEffects rnd s) = currentStepIndex s"
  by (simp add: generateStripEffects_def split: option.splits)

lemma idx_markCurrentMovieSeen [idx]:
  "currentStepIndex (markCurrentMovieSeen U clk s) = currentStepIndex s"
  by (simp add: markCurrentMovieSeen_def addSeenRandomMovie_def Let_def split: option.splits)

lemma idx_loadInfiniteMovie [idx]: "currentStepIndex (loadInfiniteMovie s) = 0"
  by (simp add: loadInfiniteMovie_def)

lemma idx_loadInfiniteMovie_next [idx]:
  "currentStepIndex (loadInfiniteMovie_next rnd m s) = currentStepIndex s"
  by (simp add: loadInfiniteMovie_next_def Let_def idx)

lemma idx_switchTab_next [idx]: "currentStepIndex (switchTab_next rnd tab m s) = currentStepIndex s"
  by (simp add: switchTab_next_def Let_def idx)

lemma idx_loadForCurrentTab_next [idx]:
  "currentStepIndex (loadForCurrentTab_next rnd tab m s) = currentStepIndex s"
  by (simp add: loadForCurrentTab_next_def idx)

named_theorems bnd "operations that keep a bound on the step index"

lemma bnd_loadForCurrentTab [bnd]:
  "currentStepIndex s \<le> n \<Longrightarrow> currentStepIndex (loadForCurrentTab clk s) \<le> n"
  by (simp add: loadForCurrentTab_def Let_def idx)

lemma bnd_switchTab [bnd]:
  "currentStepIndex s \<le> n \<Longrightarrow> currentStepIndex (switchTab clk tab force s) \<le> n"
  by (simp add: switchTab_def Let_def idx)

lemma bnd_initializeWithToken [bnd]:
  "currentStepIndex s \<le> n \<Longrightarrow> currentStepIndex (initializeWithToken clk s) \<le> n"
  by (simp add: initializeWithToken_def Let_def idx bnd)

lemma bnd_ngOnInit [bnd]:
  "currentStepIndex s \<le> n \<Longrightarrow> currentStepIndex (ngOnInit clk s) \<le> n"
  by (simp add: ngOnInit_def Let_def idx bnd)

lemma idx_reload [idx]: "currentStepIndex (reload clk ls) = 0"
  using bnd_ngOnInit [of "newComponent ls" 0 clk] by (simp add: reload_def newComponent_def)

lemma bnd_setMediaMode [bnd]:
  "currentStepIndex s \<le> n \<Longrightarrow> currentStepIndex (setMediaMode clk mode s) \<le> n"
  by (simp add: setMediaMode_def bnd)

lemma bnd_submitApiKey_next [bnd]:
  "currentStepIndex s \<le> n \<Longrightarrow> currentStepIndex (submitApiKey_next clk token ok s) \<le> n"
  by (simp add: submitApiKey_next_def bnd)

lemma bnd_requestTabSwitch [bnd]:
  "currentStepIndex s \<le> n \<Longrightarrow> currentStepIndex (requestTabSwitch clk tab s) \<le> n"
  by (simp add: requestTabSwitch_def bnd)

lemma bnd_confirmLeaveTab [bnd]:
  "currentStepIndex s \<le> n \<Longrightarrow> currentStepIndex (confirmLeaveTab clk s) \<le> n"
  by (simp add: confirmLeaveTab_def Let_def idx bnd split: option.splits)

lemma idx_confirmGiveUp [idx]: "currentStepIndex (confirmGiveUp U clk s) = currentStepIndex s"
  by (simp add: confirmGiveUp_def Let_def idx)

lemma nextStep_advance:
  "currentStepIndex s < 4 \<Longrightarrow>
     currentStepIndex (nextStep U clk rnd s) = currentStepIndex s + 1
     \<and> gameStatus (nextStep U clk rnd s) = gameStatus s"
  by (simp add: nextStep_def Let_def progressionSteps_def idx generateStripEffects_def
      split: option.splits)

lemma nextStep_exhausted:
  "\<not> currentStepIndex s < 4 \<Longrightarrow>
     currentStepIndex (nextStep U clk rnd s) = currentStepIndex s
     \<and> gameStatus (nextStep U clk rnd s) = Lost"
  by (simp add: nextStep_def Let_def progressionSteps_def idx)

lemma bnd_nextStep [bnd]:
  "currentStepIndex s \<le> 4 \<Longrightarrow> currentStepIndex (nextStep U clk rnd s) \<le> 4"
  using nextStep_advance [of s U clk rnd] nextStep_exhausted [of s U clk rnd]
  by (cases "currentStepIndex s < 4") simp_all

lemma bnd_validateGuess [bnd]:
  "currentStepIndex s \<le> 4 \<Longrightarrow> currentStepIndex (validateGuess U clk rnd s) \<le> 4"
  by (simp add: validateGuess_def Let_def idx bnd split: prod.splits)

lemma idx_dailyResponse [idx]:
  "currentStepIndex (dailyResponse msin rnd fromSwitch tab isTv requested cat s) = currentStepIndex s"
  by (simp add: dailyResponse_def Let_def idx split: sum.splits prod.splits)

lemma bnd_step:
  assumes "currentStepIndex s \<le> 4"
  shows "currentStepIndex (step U msin clk rnd e s) \<le> 4"
  using assms
  by (cases e)
     (simp_all add: idx bnd toggleSettings_def toggleInfiniteMemory_def
        setInfiniteCountryFilter_def submitApiKey_def cancelLeaveTab_def onInput_def
        searchTerms_next_def selectSuggestion_def giveUp_def cancelGiveUp_def
        loadNextInfiniteMovie_def requestClearCache_def cancelClearCache_def clearCache_def
        loadInfiniteMovie_error_def fetchImdbLink_next_def fetchImdbLink_error_def Let_def
        split: option.splits)

lemma idx_reachable: "reachable U msin P s \<Longrightarrow> currentStepIndex s \<le> 4"
proof (induction rule: reachable.induct)
  case (first_visit clk)
  show ?case by (simp add: idx)
next
  case (after_event s clk rnd e)
  then show ?case by (simp add: bnd_step)
qed

lemma currentStripCount_defined:
  "currentStepIndex s \<le> 4 \<Longrightarrow> currentStripCount s = Some (progressionSteps ! currentStepIndex s)"
  by (simp add: currentStripCount_def progressionSteps_def)

text \<open>
  Claim C10. Every event keeps the step index within \<open>0..4\<close>, so it is within bounds in
  every reachable state and the strip count \<open>progressionSteps[currentStepIndex]\<close> is
  defined; \<open>nextStep\<close> increments the index when it is below the last step and leaves the
  status alone, and otherwise sets the status to lost without touching the index.
\<close>

theorem step_index_in_bounds:
  "(currentStepIndex s \<le> 4 \<longrightarrow>
      currentStepIndex (step U msin clk rnd e s) \<le> 4
      \<and> currentStripCount (step U msin clk rnd e s)
          = Some (progressionSteps ! currentStepIndex (step U msin clk rnd e s)))
   \<and> (reachable U msin P s \<longrightarrow>
      currentStepIndex s \<le> length progressionSteps - 1
      \<and> currentStripCount s = Some (progressionSteps ! currentStepIndex s))
   \<and> (currentStepIndex s < length progressionSteps - 1 \<longrightarrow>
      currentStepIndex (nextStep U clk rnd s) = currentStepIndex s + 1
      \<and> gameStatus (nextStep U clk rnd s) = gameStatus s)
   \<and> (\<not> currentStepIndex s < length progressionSteps - 1 \<longrightarrow>
      currentStepIndex (nextStep U clk rnd s) = currentStepIndex s
      \<and> gameStatus (nextStep U clk rnd s) = Lost)"
proof -
  have l: "length progressionSteps - 1 = 4" by (simp add: progressionSteps_def)
  show ?thesis
    unfolding l
    using bnd_step [of s U msin clk rnd e] idx_reachable [of U msin P s]
      currentStripCount_defined nextStep_advance [of s U clk rnd]
      nextStep_exhausted [of s U clk rnd]
    by blast
qed

theorem step_index_in_bounds_witness:
  "currentStepIndex infinitePlaying \<le> 4
   \<and> currentStepIndex (step latin1Runtime sin day1 (\<lambda>i. 0) NextStep infinitePlaying) = 1
   \<and> reachable latin1Runtime sin (\<lambda>clk. True) infiniteLastStep
   \<and> currentStepIndex infiniteLastStep = 4
   \<and> currentStripCount infiniteLastStep = Some 10
   \<and> gameStatus infiniteLastStep = Playing
   \<and> currentStepIndex (nextStep latin1Runtime day1 (\<lambda>i. 0) infiniteLastStep) = 4
   \<and> gameStatus (nextStep latin1Runtime day1 (\<lambda>i. 0) infiniteLastStep) = Lost"
proof -
  have a: "currentStepIndex infinitePlaying = 0" by code_simp
  have b: "currentStepIndex infiniteLastStep = 4 \<and> gameStatus infiniteLastStep = Playing"
    by code_simp
  have r: "reachable latin1Runtime sin (\<lambda>clk. True) infiniteLastStep"
    by (rule reachable_infiniteLastStep) simp
  have p: "progressionSteps ! 4 = 10" "length progressionSteps - 1 = 4"
    by (simp_all add: progressionSteps_def)
  from step_index_in_bounds [of infinitePlaying latin1Runtime sin day1 "\<lambda>i. 0" NextStep
      "\<lambda>clk. True"]
    step_index_in_bounds [of infiniteLastStep latin1Runtime sin day1 "\<lambda>i. 0" NextStep
      "\<lambda>clk. True"] a b r p
  show ?thesis by simp
qed


section \<open>Properties of the streak record\<close>

subsection \<open>Numbers written and read back\<close>

lemma digitsOf_nonempty: "digitsOf n \<noteq> []"
  by (subst digitsOf.simps) simp

lemma digitsOf_digits: "0 \<le> n \<Longrightarrow> \<forall>c \<in> set (digitsOf n). isDigit c"
proof (induction n rule: digitsOf.induct)
  case (1 n)
  show ?case
  proof (cases "n < 10")
    case True
    with 1(2) show ?thesis by (subst digitsOf.simps) (simp add: isDigit_def)
  next
    case False
    with 1 have "\<forall>c \<in> set (digitsOf (n div 10)). isDigit c" by simp
    moreover have "isDigit (48 + n mod 10)" by (simp add: isDigit_def)
    ultimately show ?thesis using False by (subst digitsOf.simps) simp
  qed
qed

lemma digitsOf_value: "0 \<le> n \<Longrightarrow> foldl (\<lambda>a c. 10 * a + (c - 48)) 0 (digitsOf n) = n"
proof (induction n rule: digitsOf.induct)
  case (1 n)
  show ?case
  proof (cases "n < 10")
    case True
    then show ?thesis by (subst digitsOf.simps) simp
  next
    case False
    with 1 have "foldl (\<lambda>a c. 10 * a + (c - 48)) 0 (digitsOf (n div 10)) = n div 10" by simp
    with False show ?thesis by (subst digitsOf.simps) simp
  qed
qed

lemma digit_plain: "isDigit c \<Longrightarrow> \<not> isWhiteSpace c \<and> c \<noteq> 45 \<and> c \<noteq> 43"
  by (auto simp: isDigit_def isWhiteSpace_def)

lemma parseInt_intToString: "0 \<le> n \<Longrightarrow> parseInt (intToString n) = Num n"
proof -
  assume n: "0 \<le> n"
  let ?d = "digitsOf n"
  have ne: "?d \<noteq> []" by (rule digitsOf_nonempty)
  have dg: "\<forall>c \<in> set ?d. isDigit c" using n by (rule digitsOf_digits)
  then have h: "isDigit (hd ?d)" using ne by simp
  have dw: "dropWhile isWhiteSpace ?d = ?d"
    using ne h digit_plain by (cases ?d) auto
  have tw: "takeWhile isDigit ?d = ?d" using dg by (simp add: takeWhile_eq_all_conv)
  have sg: "hd ?d \<noteq> 45 \<and> hd ?d \<noteq> 43" using h digit_plain by blast
  show ?thesis
    using n ne sg by (simp add: parseInt_def intToString_def Let_def dw tw digitsOf_value)
qed

lemma intToString_nonempty: "intToString n \<noteq> []"
  by (simp add: intToString_def digitsOf_nonempty)

lemma getItemOr_written: "getItemOr (ls(k \<mapsto> intToString n)) k d = intToString n"
  by (simp add: getItemOr_def intToString_nonempty)

lemma getItemOr_other: "k' \<noteq> k \<Longrightarrow> getItemOr (ls(k := v)) k' d = getItemOr ls k' d"
  by (simp add: getItemOr_def)


subsection \<open>The streak keys\<close>

lemma streakOrdered_Num [simp]: "streakOrdered (Num a) (Num b) \<longleftrightarrow> 0 \<le> a \<and> a \<le> b"
  by (simp add: streakOrdered_def)

lemma streakOrdered_cases:
  "streakOrdered c t \<Longrightarrow> \<exists>a b. c = Num a \<and> t = Num b \<and> 0 \<le> a \<and> a \<le> b"
  by (cases c; cases t) (simp_all add: streakOrdered_def)

lemma storedOrdered_other:
  "\<not> isStreakKey today k \<Longrightarrow> p \<in> set streakKeyPairs \<Longrightarrow>
     storedOrdered today (ls(k := v)) p = storedOrdered today ls p"
  by (auto simp: storedOrdered_def isStreakKey_def getItemOr_other)

lemma stored_other:
  "\<not> isStreakKey today k \<Longrightarrow>
     list_all (storedOrdered today (ls(k := v))) streakKeyPairs
       = list_all (storedOrdered today ls) streakKeyPairs"
  by (simp add: list_all_iff storedOrdered_other)


lemma keys_in_pairs:
  "getStreakStorageKeys mode s = (ck, tk, ak) \<Longrightarrow> (ck, tk) \<in> set streakKeyPairs"
  by (auto simp: getStreakStorageKeys_def Let_def streakKeyPairs_def split: if_splits)

lemma allTime_keys_not_streak:
  "\<not> isStreakKey today LS_ALL_TIME_BEST" "\<not> isStreakKey today LS_ALL_TIME_BEST_TV"
  "\<not> isStreakKey today LS_ALL_TIME_BEST_HARD" "\<not> isStreakKey today LS_ALL_TIME_BEST_HARD_TV"
  by (simp_all add: isStreakKey_def streakKeyPairs_def js_def)

lemma allTime_not_streak:
  assumes "getStreakStorageKeys mode s = (ck, tk, ak)"
  shows "\<not> isStreakKey today ak"
proof -
  from assms have "ak = LS_ALL_TIME_BEST \<or> ak = LS_ALL_TIME_BEST_TV
      \<or> ak = LS_ALL_TIME_BEST_HARD \<or> ak = LS_ALL_TIME_BEST_HARD_TV"
    by (auto simp: getStreakStorageKeys_def Let_def split: if_splits)
  then show ?thesis using allTime_keys_not_streak by blast
qed

lemma pair_keys_distinct:
  "p \<in> set streakKeyPairs \<Longrightarrow> q \<in> set streakKeyPairs \<Longrightarrow>
     fst p \<noteq> snd q @ today \<and> (p \<noteq> q \<longrightarrow> fst p \<noteq> fst q \<and> snd p @ today \<noteq> snd q @ today)"
  by (simp add: streakKeyPairs_def js_def) (elim disjE; simp)

lemma other_keys_not_streak:
  "\<not> isStreakKey today LS_MEDIA_MODE" "\<not> isStreakKey today LS_INFINITE_MEMORY"
  "\<not> isStreakKey today LS_INFINITE_COUNTRY_FILTER" "\<not> isStreakKey today LS_TMDB_TOKEN"
  "\<not> isStreakKey today LS_SEEN_RANDOM" "\<not> isStreakKey today LS_SEEN_RANDOM_TV"
  by (simp_all add: isStreakKey_def streakKeyPairs_def js_def)

lemma daily_keys_not_streak:
  "\<not> isStreakKey today (getDailyStoragePrefix tab w s @ d)"
  "\<not> isStreakKey today (LS_DAILY_MOVIE_PREFIX @ d)" "\<not> isStreakKey today (LS_DAILY_HARD_MOVIE_PREFIX @ d)"
  "\<not> isStreakKey today (LS_DAILY_TV_PREFIX @ d)" "\<not> isStreakKey today (LS_DAILY_HARD_TV_PREFIX @ d)"
  by (simp_all add: isStreakKey_def streakKeyPairs_def getDailyStoragePrefix_def js_def)

subsection \<open>The invariant through the operations\<close>

named_theorems inv "operations that keep the invariant of the streak ledger"

lemma inv_updates [simp]:
  "streakInvariant today (activeTab_update f1 s) = streakInvariant today s"
  "streakInvariant today (mediaMode_update f2 s) = streakInvariant today s"
  "streakInvariant today (movie_update f3 s) = streakInvariant today s"
  "streakInvariant today (currentStepIndex_update f4 s) = streakInvariant today s"
  "streakInvariant today (userGuess_update f5 s) = streakInvariant today s"
  "streakInvariant today (gameStatus_update f6 s) = streakInvariant today s"
  "streakInvariant today (suggestions_update f7 s) = streakInvariant today s"
  "streakInvariant today (wrongGuesses_update f8 s) = streakInvariant today s"
  "streakInvariant today (showGiveUpConfirm_update f9 s) = streakInvariant today s"
  "streakInvariant today (showLeaveConfirm_update f10 s) = streakInvariant today s"
  "streakInvariant today (pendingTab_update f11 s) = streakInvariant today s"
  "streakInvariant today (pendingMediaMode_update f12 s) = streakInvariant today s"
  "streakInvariant today (showClearCacheConfirm_update f13 s) = streakInvariant today s"
  "streakInvariant today (selectedMovieFromAutocomplete_update f14 s) = streakInvariant today s"
  "streakInvariant today (dailyCompleted_update f15 s) = streakInvariant today s"
  "streakInvariant today (dailyCompletedDate_update f16 s) = streakInvariant today s"
  "streakInvariant today (imdbUrl_update f17 s) = streakInvariant today s"
  "streakInvariant today (showApiKeyPrompt_update f18 s) = streakInvariant today s"
  "streakInvariant today (apiKeyInput_update f19 s) = streakInvariant today s"
  "streakInvariant today (apiKeyError_update f20 s) = streakInvariant today s"
  "streakInvariant today (showSettings_update f21 s) = streakInvariant today s"
  "streakInvariant today (infiniteMemoryEnabled_update f22 s) = streakInvariant today s"
  "streakInvariant today (infiniteCountryFilter_update f23 s) = streakInvariant today s"
  "streakInvariant today (allTimeBestStreak_update f24 s) = streakInvariant today s"
  "streakInvariant today (stripEffects_update f25 s) = streakInvariant today s"
  "streakInvariant today (initialized_update f26 s) = streakInvariant today s"
  by (simp_all add: streakInvariant_def)

lemma inv_write [simp]:
  "\<not> isStreakKey today k \<Longrightarrow> ls = localStorage s \<Longrightarrow>
     streakInvariant today (s\<lparr> localStorage := ls(k := v) \<rparr>) = streakInvariant today s"
  by (simp add: streakInvariant_def stored_other)

lemma inv_reset [inv]:
  "streakInvariant today s \<Longrightarrow> streakInvariant today (s\<lparr> currentStreak := Num 0 \<rparr>)"
  by (auto simp: streakInvariant_def dest!: streakOrdered_cases)

lemma inv_loadStreakData [inv]:
  assumes "streakInvariant today s" and "getTodayKey clk = today"
  shows "streakInvariant today (loadStreakData clk mode s)"
proof -
  obtain ck tk ak where k: "getStreakStorageKeys mode s = (ck, tk, ak)"
    by (cases "getStreakStorageKeys mode s")
  from assms(1) keys_in_pairs [OF k]
  have "storedOrdered today (localStorage s) (ck, tk)"
    by (auto simp: streakInvariant_def list_all_iff)
  then show ?thesis
    using assms by (simp add: loadStreakData_def Let_def k streakInvariant_def storedOrdered_def)
qed

lemma inv_saveStreakData [inv]:
  assumes "streakInvariant today s" and "getTodayKey clk = today"
  shows "streakInvariant today (saveStreakData clk mode s)"
proof -
  obtain ck tk ak where k: "getStreakStorageKeys mode s = (ck, tk, ak)"
    by (cases "getStreakStorageKeys mode s")
  from assms(1) obtain a b where c: "currentStreak s = Num a" and t: "todayBestStreak s = Num b"
    and ab: "0 \<le> a" "a \<le> b"
    by (auto simp: streakInvariant_def dest!: streakOrdered_cases)
  let ?ls = "localStorage s"
  let ?ls2 = "(?ls(ck \<mapsto> intToString a))(tk @ today \<mapsto> intToString b)"
  have p: "(ck, tk) \<in> set streakKeyPairs" using k by (rule keys_in_pairs)
  have d: "ck \<noteq> tk @ today" using pair_keys_distinct [OF p p, of today] by simp
  have "storedOrdered today ?ls2 q" if q: "q \<in> set streakKeyPairs" for q
  proof (cases "q = (ck, tk)")
    case True
    with ab d show ?thesis
      by (simp add: storedOrdered_def getItemOr_def intToString_nonempty parseInt_intToString)
  next
    case False
    with pair_keys_distinct [OF q p, of today] pair_keys_distinct [OF p q, of today]
    have "fst q \<noteq> ck" "fst q \<noteq> tk @ today" "snd q @ today \<noteq> ck" "snd q @ today \<noteq> tk @ today"
      by auto
    moreover from assms(1) q have "storedOrdered today ?ls q"
      by (simp add: streakInvariant_def list_all_iff)
    ultimately show ?thesis by (simp add: storedOrdered_def getItemOr_def)
  qed
  then have "list_all (storedOrdered today ?ls2) streakKeyPairs" by (simp add: list_all_iff)
  then have "list_all (storedOrdered today (?ls2(ak \<mapsto> v))) streakKeyPairs" for v
    using allTime_not_streak [OF k, of today] by (simp add: stored_other)
  then show ?thesis
    using assms c t ab by (simp add: saveStreakData_def Let_def k streakInvariant_def)
qed

lemma inv_markCurrentMovieSeen [simp]:
  "streakInvariant today (markCurrentMovieSeen U clk s) = streakInvariant today s"
  by (simp add: markCurrentMovieSeen_def addSeenRandomMovie_def getSeenRandomKey_def Let_def
      other_keys_not_streak split: option.splits)

lemma inv_markDailyWin [simp]:
  "streakInvariant today (markDailyWin clk tab s) = streakInvariant today s"
  by (simp add: markDailyWin_def Let_def streakInvariant_def stored_other daily_keys_not_streak)

lemma inv_markDailyLoss [simp]:
  "streakInvariant today (markDailyLoss clk tab s) = streakInvariant today s"
  by (simp add: markDailyLoss_def Let_def streakInvariant_def stored_other daily_keys_not_streak)

lemma inv_syncDailyOutcome [simp]:
  "streakInvariant today (syncDailyOutcome clk tab s) = streakInvariant today s"
  by (simp add: syncDailyOutcome_def Let_def)

lemma inv_generateStripEffects [simp]:
  "streakInvariant today (generateStripEffects rnd s) = streakInvariant today s"
  by (simp add: generateStripEffects_def split: option.splits)

lemma inv_loadInfiniteMovie [simp]:
  "streakInvariant today (loadInfiniteMovie s) = streakInvariant today s"
  by (simp add: loadInfiniteMovie_def)

lemma inv_loadInfiniteMovie_next [simp]:
  "streakInvariant today (loadInfiniteMovie_next rnd m s) = streakInvariant today s"
  by (simp add: loadInfiniteMovie_next_def Let_def)

lemma inv_switchTab_next [simp]:
  "streakInvariant today (switchTab_next rnd tab m s) = streakInvariant today s"
  by (simp add: switchTab_next_def Let_def)

lemma inv_loadForCurrentTab_next [simp]:
  "streakInvariant today (loadForCurrentTab_next rnd tab m s) = streakInvariant today s"
  by (simp add: loadForCurrentTab_next_def)

lemma inv_loadForCurrentTab [inv]:
  "streakInvariant today s \<Longrightarrow> getTodayKey clk = today \<Longrightarrow>
     streakInvariant today (loadForCurrentTab clk s)"
  by (simp add: loadForCurrentTab_def Let_def inv)

lemma inv_switchTab [inv]:
  "streakInvariant today s \<Longrightarrow> getTodayKey clk = today \<Longrightarrow>
     streakInvariant today (switchTab clk tab force s)"
  by (simp add: switchTab_def Let_def inv)

lemma inv_initializeWithToken [inv]:
  "streakInvariant today s \<Longrightarrow> getTodayKey clk = today \<Longrightarrow>
     streakInvariant today (initializeWithToken clk s)"
  by (simp add: initializeWithToken_def Let_def inv)

lemma inv_ngOnInit [inv]:
  "streakInvariant today s \<Longrightarrow> getTodayKey clk = today \<Longrightarrow>
     streakInvariant today (ngOnInit clk s)"
  by (simp add: ngOnInit_def Let_def inv)

lemma inv_newComponent:
  "list_all (storedOrdered today ls) streakKeyPairs \<Longrightarrow> streakInvariant today (newComponent ls)"
  by (simp add: streakInvariant_def newComponent_def)

lemma inv_reload [inv]:
  "list_all (storedOrdered today ls) streakKeyPairs \<Longrightarrow> getTodayKey clk = today \<Longrightarrow>
     streakInvariant today (reload clk ls)"
  by (simp add: reload_def inv inv_newComponent)

lemma inv_setMediaMode [inv]:
  "streakInvariant today s \<Longrightarrow> getTodayKey clk = today \<Longrightarrow>
     streakInvariant today (setMediaMode clk mode s)"
  by (simp add: setMediaMode_def inv other_keys_not_streak)

lemma inv_submitApiKey_next [inv]:
  "streakInvariant today s \<Longrightarrow> getTodayKey clk = today \<Longrightarrow>
     streakInvariant today (submitApiKey_next clk token ok s)"
  by (simp add: submitApiKey_next_def inv other_keys_not_streak)

lemma inv_requestTabSwitch [inv]:
  "streakInvariant today s \<Longrightarrow> getTodayKey clk = today \<Longrightarrow>
     streakInvariant today (requestTabSwitch clk tab s)"
  by (simp add: requestTabSwitch_def inv)

lemma inv_confirmLeaveTab [inv]:
  "streakInvariant today s \<Longrightarrow> getTodayKey clk = today \<Longrightarrow>
     streakInvariant today (confirmLeaveTab clk s)"
  by (simp add: confirmLeaveTab_def Let_def inv other_keys_not_streak split: option.splits)

lemma inv_confirmGiveUp [inv]:
  "streakInvariant today s \<Longrightarrow> getTodayKey clk = today \<Longrightarrow>
     streakInvariant today (confirmGiveUp U clk s)"
  by (simp add: confirmGiveUp_def Let_def inv)

lemma inv_nextStep [inv]:
  "streakInvariant today s \<Longrightarrow> getTodayKey clk = today \<Longrightarrow>
     streakInvariant today (nextStep U clk rnd s)"
  by (simp add: nextStep_def Let_def inv)

lemma inv_win [inv]:
  assumes "streakInvariant today s"
  shows "streakInvariant today
           (if numGreater (numSucc (currentStreak s)) (todayBestStreak s)
            then s\<lparr> currentStreak := numSucc (currentStreak s),
                    todayBestStreak := numSucc (currentStreak s) \<rparr>
            else s\<lparr> currentStreak := numSucc (currentStreak s) \<rparr>)"
proof -
  from assms obtain a b where "currentStreak s = Num a" "todayBestStreak s = Num b" "0 \<le> a" "a \<le> b"
    by (auto simp: streakInvariant_def dest!: streakOrdered_cases)
  with assms show ?thesis by (auto simp: streakInvariant_def)
qed

lemma inv_counters:
  "streakInvariant today (s\<lparr> currentStreak := c \<rparr>) \<longleftrightarrow>
     streakOrdered c (todayBestStreak s) \<and> list_all (storedOrdered today (localStorage s)) streakKeyPairs"
  "streakInvariant today (s\<lparr> todayBestStreak := t \<rparr>) \<longleftrightarrow>
     streakOrdered (currentStreak s) t \<and> list_all (storedOrdered today (localStorage s)) streakKeyPairs"
  by (simp_all add: streakInvariant_def)

lemma inv_validateGuess [inv]:
  assumes i: "streakInvariant today s" and d: "getTodayKey clk = today"
  shows "streakInvariant today (validateGuess U clk rnd s)"
proof -
  from i obtain a b where c: "currentStreak s = Num a" and t: "todayBestStreak s = Num b"
    and ab: "0 \<le> a" "a \<le> b"
    by (auto simp: streakInvariant_def dest!: streakOrdered_cases)
  from i have st: "list_all (storedOrdered today (localStorage s)) streakKeyPairs"
    by (simp add: streakInvariant_def)
  let ?s1 = "markCurrentMovieSeen U clk (s\<lparr> gameStatus := Won \<rparr>)"
  have i1: "streakInvariant today ?s1" using i by simp
  then have st1: "list_all (storedOrdered today (localStorage ?s1)) streakKeyPairs"
    by (simp add: streakInvariant_def)
  have w: "streakInvariant today
      (let s2 = ?s1\<lparr> currentStreak := numSucc (currentStreak ?s1) \<rparr>;
           newStreak = currentStreak s2;
           s3 = (if numGreater newStreak (todayBestStreak s2)
                 then s2\<lparr> todayBestStreak := newStreak \<rparr> else s2);
           s4 = (if numGreater newStreak (allTimeBestStreak s3)
                 then s3\<lparr> allTimeBestStreak := newStreak \<rparr> else s3)
       in saveStreakData clk mode s4)" for mode
    using ab st1 d by (auto simp: Let_def c t inv_counters intro!: inv_saveStreakData)
  show ?thesis
    using i i1 d w
    by (simp add: validateGuess_def Let_def inv split: prod.splits)
qed

lemma pickFromPage_stored:
  assumes "pickFromPage err msin clk off key movies ls = Inr (index, m, ls')"
    and "\<not> isStreakKey today key"
  shows "list_all (storedOrdered today ls') streakKeyPairs
           = list_all (storedOrdered today ls) streakKeyPairs"
  using assms by (auto simp: pickFromPage_def Let_def stored_other split: if_splits)

lemma getDailyMovieInternal_stored:
  assumes "getDailyMovieInternal msin cat clk off prefix ls = Inr (m, ls')"
    and "\<And>d. \<not> isStreakKey today (prefix @ d)"
  shows "list_all (storedOrdered today ls') streakKeyPairs
           = list_all (storedOrdered today ls) streakKeyPairs"
  using assms(1) pickFromPage_stored [OF _ assms(2)]
  by (auto simp: getDailyMovieInternal_def pickAndStoreDailyMovie_def Let_def
      split: sum.splits option.splits if_splits jsnum.splits prod.splits)

lemma getDailyTvInternal_stored:
  assumes "getDailyTvInternal msin cat clk off prefix ls = Inr (m, ls')"
    and "\<And>d. \<not> isStreakKey today (prefix @ d)"
  shows "list_all (storedOrdered today ls') streakKeyPairs
           = list_all (storedOrdered today ls) streakKeyPairs"
  using assms(1) pickFromPage_stored [OF _ assms(2)]
  by (auto simp: getDailyTvInternal_def pickAndStoreDailyTvShow_def Let_def
      split: sum.splits option.splits if_splits jsnum.splits prod.splits)

lemma inv_storage:
  "list_all (storedOrdered today ls') streakKeyPairs
     = list_all (storedOrdered today (localStorage s)) streakKeyPairs \<Longrightarrow>
   streakInvariant today (s\<lparr> localStorage := ls' \<rparr>) = streakInvariant today s"
  by (simp add: streakInvariant_def)

lemma inv_dailyResponse [inv]:
  assumes "streakInvariant today s"
  shows "streakInvariant today (dailyResponse msin rnd fromSwitch tab isTv requested cat s)"
proof -
  have "streakInvariant today (s\<lparr> localStorage := ls' \<rparr>)"
    if "getDailyMovie msin cat requested (localStorage s) = Inr (m, ls')
        \<or> getDailyMovieHard msin cat requested (localStorage s) = Inr (m, ls')
        \<or> getDailyTvShow msin cat requested (localStorage s) = Inr (m, ls')
        \<or> getDailyTvShowHard msin cat requested (localStorage s) = Inr (m, ls')" for m ls'
    using that assms
      getDailyMovieInternal_stored [of msin cat requested _ _ "localStorage s" m ls' today]
      getDailyTvInternal_stored [of msin cat requested _ _ "localStorage s" m ls' today]
    by (auto simp: getDailyMovie_def getDailyMovieHard_def getDailyTvShow_def
        getDailyTvShowHard_def daily_keys_not_streak inv_storage)
  then show ?thesis
    using assms by (auto simp: dailyResponse_def Let_def split: sum.splits)
qed

lemma inv_reload_same_store [inv]:
  "streakInvariant today s \<Longrightarrow> getTodayKey clk = today \<Longrightarrow>
     streakInvariant today (reload clk (localStorage s))"
  by (rule inv_reload) (simp_all add: streakInvariant_def)



subsection \<open>Wins and losses\<close>







subsection \<open>Across days\<close>


end
